theory Spec2Isabelle
  imports Main "HOL-Library.Word" "HOL-Library.Char_ord" "HOL-Library.List_Lexorder"
begin

section \<open>The Daikin client library (daikin.go)\<close>

text \<open>
  A shallow embedding of \<^verbatim>\<open>src/daikin.go\<close>. Go strings are byte strings
  (\<^typ>\<open>string\<close>); Go's \<^verbatim>\<open>int\<close> is modelled by \<^typ>\<open>int\<close> with the
  64-bit range check of \<^verbatim>\<open>strconv\<close> written out; the \<^verbatim>\<open>int32\<close> types are
  \<^typ>\<open>32 word\<close>, read with \<^const>\<open>sint\<close>. A method with a pointer receiver that
  assigns \<^verbatim>\<open>*p\<close> only on success returns the new value or the error. An error
  built by \<^verbatim>\<open>fmt.Errorf\<close> is a constructor named after its format string,
  carrying the format's arguments.
\<close>

subsection \<open>Errors and panics\<close>

text \<open>The two errors of package strconv: \<^verbatim>\<open>ErrSyntax\<close> and \<^verbatim>\<open>ErrRange\<close>.\<close>

datatype NumError = ErrSyntax | ErrRange

datatype error =
    UnknownPwrValue string              \<comment> \<open>"unknown pwr value: %s" (Power.decode and Fan.decode)\<close>
  | UnknownModeValue string             \<comment> \<open>"unknown mode value: %s"\<close>
  | InvalidFDirValue string NumError    \<comment> \<open>"invalid f_dir value: %s (err=%v)"\<close>
  | UnknownFDirValue string             \<comment> \<open>"unknown f_dir value: %s"\<close>
  | ErrorParsingSTemp string NumError   \<comment> \<open>"error parsing s_temp=%s: %v"\<close>
  | ErrorParsingSHum string NumError    \<comment> \<open>"error parsing s_hum=%s: %v"\<close>
  | ErrorParsingWattHours string NumError  \<comment> \<open>"error parsing watt hours=%s: %v"\<close>
  | ErrorParsingMinutes string NumError \<comment> \<open>"error parsing minutes=%s: %v"\<close>
  | DeviceReturnedError string          \<comment> \<open>"device returned error ret=%s"\<close>
  | Expected7Elements nat               \<comment> \<open>"expected 7 elements in week power data, got %d"\<close>
  | RowsOfRecords nat                   \<comment> \<open>"Have %d rows of records, want just one"\<close>
  | RequestFailed string int            \<comment> \<open>"GET %s request failed: %d"\<close>
  | Foreign string                      \<comment> \<open>an error of net/http, io or encoding/csv, passed on\<close>
  | Prefixed string error               \<comment> \<open>"GetControlInfo: %v" and its two siblings\<close>

text \<open>A run-time panic of the Go runtime is not a returned error.\<close>

datatype panic =
    IndexOutOfRange nat nat   \<comment> \<open>index out of range [i] with length n\<close>
  | NilDereference

datatype 'a outcome = Return 'a | Panic panic

subsection \<open>Package strconv: Itoa and Atoi\<close>

text \<open>
  \<^verbatim>\<open>strconv.Itoa\<close> and \<^verbatim>\<open>strconv.Atoi\<close> belong to Go's standard library; they
  are modelled from their documentation and source (\<^verbatim>\<open>Atoi(s)\<close> is
  \<^verbatim>\<open>ParseInt(s, 10, 0)\<close>). \<^verbatim>\<open>IntSize\<close> is the width of \<^verbatim>\<open>int\<close>, 64 on the
  64-bit platforms.
\<close>

definition IntSize :: nat where
  "IntSize = 64"

fun formatDigits :: "nat \<Rightarrow> string" where
  "formatDigits n =
     (if n < 10 then [''0123456789'' ! n]
      else formatDigits (n div 10) @ [''0123456789'' ! (n mod 10)])"

declare formatDigits.simps [simp del]

definition Itoa :: "int \<Rightarrow> string" where
  "Itoa i = (if i < 0 then CHR ''-'' # formatDigits (nat (- i)) else formatDigits (nat i))"

definition isDigit :: "char \<Rightarrow> bool" where
  "isDigit c \<longleftrightarrow> CHR ''0'' \<le> c \<and> c \<le> CHR ''9''"

definition digitVal :: "char \<Rightarrow> nat" where
  "digitVal c = of_char c - of_char CHR ''0''"

text \<open>
  The digit loop of \<^verbatim>\<open>ParseUint(s, 10, bitSize)\<close> on a \<^verbatim>\<open>uint64\<close> accumulator:
  a byte that is no decimal digit is a syntax error; \<^verbatim>\<open>n >= cutoff\<close> (the product
  would overflow) and \<^verbatim>\<open>n1 < n || n1 > maxVal\<close> (the sum wrapped around, or is too
  large) are range errors, returned at once.
\<close>

definition maxUint64 :: nat where
  "maxUint64 = 2 ^ 64 - 1"

fun ParseUint_loop :: "nat \<Rightarrow> nat \<Rightarrow> string \<Rightarrow> NumError + nat" where
  "ParseUint_loop maxVal n [] = Inr n"
| "ParseUint_loop maxVal n (c # cs) =
     (if \<not> isDigit c then Inl ErrSyntax
      else if n \<ge> maxUint64 div 10 + 1 then Inl ErrRange
      else let n10 = n * 10; n1 = (n10 + digitVal c) mod 2 ^ 64
           in if n1 < n10 \<or> n1 > maxVal then Inl ErrRange
              else ParseUint_loop maxVal n1 cs)"

definition ParseUint :: "string \<Rightarrow> nat \<Rightarrow> NumError + nat" where
  "ParseUint s bitSize =
     (if s = [] then Inl ErrSyntax else ParseUint_loop (2 ^ bitSize - 1) 0 s)"

text \<open>
  \<^verbatim>\<open>ParseInt(s, 10, bitSize)\<close>: an optional sign, then \<^verbatim>\<open>ParseUint\<close>; a syntax
  error is passed on; a range error of \<^verbatim>\<open>ParseUint\<close> comes with the value
  \<^verbatim>\<open>maxVal\<close>, which the cutoff test turns into a range error again.
\<close>

definition ParseInt :: "string \<Rightarrow> nat \<Rightarrow> NumError + int" where
  "ParseInt s bitSize =
     (if s = [] then Inl ErrSyntax
      else let neg = (hd s = CHR ''-'');
               s' = (if hd s = CHR ''+'' \<or> hd s = CHR ''-'' then tl s else s);
               cutoff = 2 ^ (bitSize - 1)
           in case ParseUint s' bitSize of
                Inl ErrSyntax \<Rightarrow> Inl ErrSyntax
              | Inl ErrRange \<Rightarrow> Inl ErrRange
              | Inr un \<Rightarrow>
                  if \<not> neg \<and> un \<ge> cutoff then Inl ErrRange
                  else if neg \<and> un > cutoff then Inl ErrRange
                  else Inr (if neg then - int un else int un))"

definition Atoi :: "string \<Rightarrow> NumError + int" where
  "Atoi s = ParseInt s IntSize"

text \<open>
  The reading of "a well-formed decimal integer token" that the decoders are compared
  with: an optional sign, then one or more decimal digits, of any length. Its value is
  unbounded.
\<close>

definition decimalValue :: "string \<Rightarrow> nat" where
  "decimalValue ds = foldl (\<lambda>n c. n * 10 + digitVal c) 0 ds"

definition integerToken :: "string \<Rightarrow> int option" where
  "integerToken s =
     (case s of
        [] \<Rightarrow> None
      | c # cs \<Rightarrow>
          if c = CHR ''-'' then
            (if cs \<noteq> [] \<and> list_all isDigit cs then Some (- int (decimalValue cs)) else None)
          else if c = CHR ''+'' then
            (if cs \<noteq> [] \<and> list_all isDigit cs then Some (int (decimalValue cs)) else None)
          else
            (if list_all isDigit s then Some (int (decimalValue s)) else None))"

text \<open>An integer token whose value an \<^verbatim>\<open>int\<close> of 64 bits holds.\<close>

definition int64Token :: "string \<Rightarrow> bool" where
  "int64Token s \<longleftrightarrow>
     (case integerToken s of
        None \<Rightarrow> False
      | Some v \<Rightarrow> - (2 ^ 63) \<le> v \<and> v < 2 ^ 63)"

subsection \<open>Power\<close>

type_synonym Power = int

definition PowerOff :: Power where "PowerOff = 0"
definition PowerOn :: Power where "PowerOn = 1"

text \<open>The values the constant block defines.\<close>

definition Power_values :: "Power list" where
  "Power_values = [PowerOff, PowerOn]"

definition powerMap :: "Power \<rightharpoonup> string" where
  "powerMap = [PowerOff \<mapsto> ''Off'', PowerOn \<mapsto> ''On'']"

text \<open>The token \<^verbatim>\<open>setUrlValues\<close> stores under "pow".\<close>

definition Power_token :: "Power \<Rightarrow> string" where
  "Power_token p = Itoa p"

definition Power_decode :: "string \<Rightarrow> error + Power" where
  "Power_decode s =
     (if s = ''0'' then Inr PowerOff
      else if s = ''1'' then Inr PowerOn
      else Inl (UnknownPwrValue s))"

definition Power_String :: "Power \<Rightarrow> string" where
  "Power_String p =
     (case powerMap p of
        None \<Rightarrow> ''Unknown Power ['' @ Itoa p @ '']''
      | Some v \<Rightarrow> v)"

subsection \<open>Mode\<close>

type_synonym Mode = int

definition ModeDehumidify :: Mode where "ModeDehumidify = 2"
definition ModeCool :: Mode where "ModeCool = 3"
definition ModeHeat :: Mode where "ModeHeat = 4"
definition ModeFan :: Mode where "ModeFan = 6"
definition ModeAuto :: Mode where "ModeAuto = 0"
definition ModeAuto1 :: Mode where "ModeAuto1 = 1"
definition ModeAuto7 :: Mode where "ModeAuto7 = 7"

definition Mode_values :: "Mode list" where
  "Mode_values =
     [ModeDehumidify, ModeCool, ModeHeat, ModeFan, ModeAuto, ModeAuto1, ModeAuto7]"

definition modeMap :: "Mode \<rightharpoonup> string" where
  "modeMap = [ModeDehumidify \<mapsto> ''Dehumidify'', ModeCool \<mapsto> ''Cool'',
              ModeHeat \<mapsto> ''Heat'', ModeFan \<mapsto> ''Fan'', ModeAuto \<mapsto> ''Auto'',
              ModeAuto1 \<mapsto> ''Auto'', ModeAuto7 \<mapsto> ''Auto'']"

definition Mode_String :: "Mode \<Rightarrow> string" where
  "Mode_String m =
     (case modeMap m of
        Some v \<Rightarrow> v
      | None \<Rightarrow> ''Unknown Mode ['' @ Itoa m @ '']'')"

definition Mode_token :: "Mode \<Rightarrow> string" where
  "Mode_token m = Itoa m"

definition Mode_decode :: "string \<Rightarrow> error + Mode" where
  "Mode_decode s =
     (if s = ''2'' then Inr ModeDehumidify
      else if s = ''3'' then Inr ModeCool
      else if s = ''4'' then Inr ModeHeat
      else if s = ''6'' then Inr ModeFan
      else if s = ''0'' then Inr ModeAuto
      else if s = ''1'' then Inr ModeAuto1
      else if s = ''7'' then Inr ModeAuto7
      else Inl (UnknownModeValue s))"

subsection \<open>Fan\<close>

type_synonym Fan = string

definition FanAuto :: Fan where "FanAuto = ''A''"
definition FanSilent :: Fan where "FanSilent = ''B''"
definition Fan1 :: Fan where "Fan1 = ''3''"
definition Fan2 :: Fan where "Fan2 = ''4''"
definition Fan3 :: Fan where "Fan3 = ''5''"
definition Fan4 :: Fan where "Fan4 = ''6''"
definition Fan5 :: Fan where "Fan5 = ''7''"

definition Fan_values :: "Fan list" where
  "Fan_values = [FanAuto, FanSilent, Fan1, Fan2, Fan3, Fan4, Fan5]"

definition fanMap :: "Fan \<rightharpoonup> string" where
  "fanMap = [FanAuto \<mapsto> ''Auto'', FanSilent \<mapsto> ''Silent'', Fan1 \<mapsto> ''1'', Fan2 \<mapsto> ''2'',
             Fan3 \<mapsto> ''3'', Fan4 \<mapsto> ''4'', Fan5 \<mapsto> ''5'']"

definition Fan_String :: "Fan \<Rightarrow> string" where
  "Fan_String f =
     (case fanMap f of
        None \<Rightarrow> ''Unknown Fan ['' @ f @ '']''
      | Some v \<Rightarrow> v)"

definition Fan_token :: "Fan \<Rightarrow> string" where
  "Fan_token f = f"

definition Fan_decode :: "string \<Rightarrow> error + Fan" where
  "Fan_decode s =
     (if s = ''A'' then Inr FanAuto
      else if s = ''B'' then Inr FanSilent
      else if s = ''3'' then Inr Fan1
      else if s = ''4'' then Inr Fan2
      else if s = ''5'' then Inr Fan3
      else if s = ''6'' then Inr Fan4
      else if s = ''7'' then Inr Fan5
      else Inl (UnknownPwrValue s))"

subsection \<open>FanDir\<close>

type_synonym FanDir = int

definition FanDirStopped :: FanDir where "FanDirStopped = 0"
definition FanDirVertical :: FanDir where "FanDirVertical = 1"
definition FanDirHorizontal :: FanDir where "FanDirHorizontal = 2"
definition FanDirBoth :: FanDir where "FanDirBoth = 3"

definition FanDir_values :: "FanDir list" where
  "FanDir_values = [FanDirStopped, FanDirVertical, FanDirHorizontal, FanDirBoth]"

definition fanDirMap :: "FanDir \<rightharpoonup> string" where
  "fanDirMap = [FanDirStopped \<mapsto> ''Stopped'', FanDirVertical \<mapsto> ''Vertical'',
                FanDirHorizontal \<mapsto> ''Horizontal'', FanDirBoth \<mapsto> ''Both'']"

definition FanDir_String :: "FanDir \<Rightarrow> string" where
  "FanDir_String f =
     (case fanDirMap f of
        None \<Rightarrow> ''Unknown FanDir ['' @ Itoa f @ '']''
      | Some v \<Rightarrow> v)"

definition FanDir_token :: "FanDir \<Rightarrow> string" where
  "FanDir_token f = Itoa f"

definition FanDir_decode :: "string \<Rightarrow> error + FanDir" where
  "FanDir_decode s =
     (case Atoi s of
        Inl err \<Rightarrow> Inl (InvalidFDirValue s err)
      | Inr v \<Rightarrow>
          (case fanDirMap v of
             None \<Rightarrow> Inl (UnknownFDirValue s)
           | Some _ \<Rightarrow> Inr v))"

subsection \<open>Temperature\<close>

text \<open>
  A \<^verbatim>\<open>float64\<close> is a sign with a mantissa and a binary exponent (the value
  \<open>m * 2 ^ e\<close>, negated when the sign is set), an infinity or a NaN.
  \<^verbatim>\<open>strconv.FormatFloat(x, 'f', 1, 64)\<close> rounds the exact value to one decimal,
  halves to even, and prints the sign, the integer digits, a point and one digit.
  \<^verbatim>\<open>strconv.ParseFloat\<close> is a parameter of the decoder.
\<close>

datatype float64 = Finite bool nat int | Infinite bool | NaN

definition roundTenths :: "nat \<Rightarrow> int \<Rightarrow> nat" where
  "roundTenths m e =
     (if 0 \<le> e then m * 2 ^ nat e * 10
      else let d = 2 ^ nat (- e); q = (m * 10) div d; r = (m * 10) mod d
           in if 2 * r < d then q
              else if d < 2 * r then q + 1
              else if even q then q else q + 1)"

definition FormatFloat_f1 :: "float64 \<Rightarrow> string" where
  "FormatFloat_f1 x =
     (case x of
        NaN \<Rightarrow> ''NaN''
      | Infinite neg \<Rightarrow> (if neg then ''-Inf'' else ''+Inf'')
      | Finite neg m e \<Rightarrow>
          (let t = roundTenths m e
           in (if neg then ''-'' else []) @ formatDigits (t div 10) @ ''.'' @
              formatDigits (t mod 10)))"

type_synonym Temperature = float64

type_synonym ParseFloat = "string \<Rightarrow> NumError + float64"

definition Temperature_String :: "Temperature \<Rightarrow> string" where
  "Temperature_String t = FormatFloat_f1 t"

definition Temperature_decode :: "ParseFloat \<Rightarrow> string \<Rightarrow> error + Temperature" where
  "Temperature_decode parseFloat v =
     (case parseFloat v of
        Inl err \<Rightarrow> Inl (ErrorParsingSTemp v err)
      | Inr val \<Rightarrow> Inr val)"

subsection \<open>Humidity, WattHours, Minutes\<close>

text \<open>The conversion of an \<^verbatim>\<open>int\<close> to an \<^verbatim>\<open>int32\<close> keeps the low 32 bits.\<close>

type_synonym Humidity = "32 word"
type_synonym WattHours = "32 word"
type_synonym Minutes = "32 word"

definition Humidity_String :: "Humidity \<Rightarrow> string" where
  "Humidity_String h = Itoa (sint h)"

definition Humidity_decode :: "string \<Rightarrow> error + Humidity" where
  "Humidity_decode v0 =
     (let v = (if v0 = ''-'' then ''-1'' else v0)
      in case Atoi v of
           Inl err \<Rightarrow> Inl (ErrorParsingSHum v err)
         | Inr val \<Rightarrow> Inr (word_of_int val))"

definition WattHours_String :: "WattHours \<Rightarrow> string" where
  "WattHours_String w = Itoa (sint w)"

definition WattHours_decode :: "string \<Rightarrow> error + WattHours" where
  "WattHours_decode v0 =
     (let v = (if v0 = ''-'' then ''-1'' else v0)
      in case Atoi v of
           Inl err \<Rightarrow> Inl (ErrorParsingWattHours v err)
         | Inr val \<Rightarrow> Inr (word_of_int val))"

definition Minutes_String :: "Minutes \<Rightarrow> string" where
  "Minutes_String m = Itoa (sint m)"

definition Minutes_decode :: "string \<Rightarrow> error + Minutes" where
  "Minutes_decode v0 =
     (let v = (if v0 = ''-'' then ''-1'' else v0)
      in case Atoi v of
           Inl err \<Rightarrow> Inl (ErrorParsingMinutes v err)
         | Inr val \<Rightarrow> Inr (word_of_int val))"

subsection \<open>url.Values\<close>

text \<open>
  \<^verbatim>\<open>url.Values\<close> is a \<^verbatim>\<open>map[string][]string\<close>: it has no order of its own.
  \<^verbatim>\<open>Encode\<close> writes the keys sorted, each value as \<^verbatim>\<open>key=value\<close> with both
  sides query-escaped, joined by \<^verbatim>\<open>&\<close>. \<^verbatim>\<open>QueryEscape\<close> keeps letters, digits
  and \<^verbatim>\<open>-_.~\<close>, writes a space as \<^verbatim>\<open>+\<close> and any other byte as \<^verbatim>\<open>%XX\<close>.
\<close>

type_synonym Values = "string \<rightharpoonup> string list"

definition Values_Set :: "Values \<Rightarrow> string \<Rightarrow> string \<Rightarrow> Values" where
  "Values_Set v key val = v(key \<mapsto> [val])"

definition shouldEscape :: "char \<Rightarrow> bool" where
  "shouldEscape c \<longleftrightarrow>
     \<not> ((CHR ''a'' \<le> c \<and> c \<le> CHR ''z'') \<or> (CHR ''A'' \<le> c \<and> c \<le> CHR ''Z'') \<or>
        (CHR ''0'' \<le> c \<and> c \<le> CHR ''9'') \<or> c \<in> set ''-_.~'')"

definition QueryEscape :: "string \<Rightarrow> string" where
  "QueryEscape s =
     concat (map (\<lambda>c.
       if shouldEscape c then
         (if c = CHR '' '' then ''+''
          else [CHR ''%'', ''0123456789ABCDEF'' ! (of_char c div 16),
                ''0123456789ABCDEF'' ! (of_char c mod 16)])
       else [c]) s)"

fun joinAmp :: "string list \<Rightarrow> string" where
  "joinAmp [] = []"
| "joinAmp [x] = x"
| "joinAmp (x # y # zs) = x @ ''&'' @ joinAmp (y # zs)"

text \<open>The parameters in the order in which \<^verbatim>\<open>Encode\<close> writes them: by key, sorted.\<close>

definition Values_sorted :: "Values \<Rightarrow> (string \<times> string) list" where
  "Values_sorted v =
     concat (map (\<lambda>k. map (\<lambda>x. (k, x)) (the (v k))) (sorted_list_of_set (dom v)))"

definition Values_Encode :: "Values \<Rightarrow> string" where
  "Values_Encode v =
     joinAmp (map (\<lambda>(k, x). QueryEscape k @ ''='' @ QueryEscape x) (Values_sorted v))"

definition Power_setUrlValues :: "Power \<Rightarrow> Values \<Rightarrow> Values" where
  "Power_setUrlValues p v = Values_Set v ''pow'' (Power_token p)"

definition Mode_setUrlValues :: "Mode \<Rightarrow> Values \<Rightarrow> Values" where
  "Mode_setUrlValues m v = Values_Set v ''mode'' (Mode_token m)"

definition Fan_setUrlValues :: "Fan \<Rightarrow> Values \<Rightarrow> Values" where
  "Fan_setUrlValues f v = Values_Set v ''f_rate'' (Fan_token f)"

definition FanDir_setUrlValues :: "FanDir \<Rightarrow> Values \<Rightarrow> Values" where
  "FanDir_setUrlValues f v = Values_Set v ''f_dir'' (FanDir_token f)"

definition Temperature_setUrlValues :: "Temperature \<Rightarrow> Values \<Rightarrow> Values" where
  "Temperature_setUrlValues t v = Values_Set v ''stemp'' (Temperature_String t)"

definition Humidity_setUrlValues :: "Humidity \<Rightarrow> Values \<Rightarrow> Values" where
  "Humidity_setUrlValues h v = Values_Set v ''shum'' (Humidity_String h)"

subsection \<open>Wire records and the order of a range loop\<close>

text \<open>
  The wire record is a \<^verbatim>\<open>map[string]string\<close>. A \<^verbatim>\<open>for k, v := range values\<close>
  loop visits every entry once, in an order the Go runtime chooses. The populate
  functions below take the entries as the list in which the loop visits them;
  \<open>rangeOrder values kvs\<close> says that \<open>kvs\<close> is such a list for the map.
\<close>

type_synonym WireRecord = "string \<rightharpoonup> string"

definition rangeOrder :: "WireRecord \<Rightarrow> (string \<times> string) list \<Rightarrow> bool" where
  "rangeOrder values kvs \<longleftrightarrow> distinct (map fst kvs) \<and> map_of kvs = values"

text \<open>
  The loop that the three populate methods share: the body runs on each entry in turn,
  on the record as the entries before it left it, and the first error ends the call.
\<close>

fun rangeLoop ::
  "('r \<Rightarrow> string \<Rightarrow> string \<Rightarrow> 'r \<times> error option) \<Rightarrow> 'r \<Rightarrow> (string \<times> string) list \<Rightarrow>
     'r \<times> error option" where
  "rangeLoop body r [] = (r, None)"
| "rangeLoop body r ((k, v) # kvs) =
     (case body r k v of
        (r', Some err) \<Rightarrow> (r', Some err)
      | (r', None) \<Rightarrow> rangeLoop body r' kvs)"

definition returnOk :: string where
  "returnOk = ''OK''"

subsection \<open>SensorInfo\<close>

record SensorInfo =
  HomeTemperature :: Temperature
  OutsideTemperature :: Temperature
  Humidity :: Humidity

text \<open>The zero value \<^verbatim>\<open>SensorInfo{}\<close>.\<close>

definition SensorInfo_zero :: SensorInfo where
  "SensorInfo_zero =
     \<lparr>HomeTemperature = Finite False 0 0, OutsideTemperature = Finite False 0 0,
      Humidity = 0\<rparr>"

text \<open>The body of the range loop of \<^verbatim>\<open>SensorInfo.populate\<close> for one entry.\<close>

definition SensorInfo_entry ::
  "ParseFloat \<Rightarrow> SensorInfo \<Rightarrow> string \<Rightarrow> string \<Rightarrow> SensorInfo \<times> error option" where
  "SensorInfo_entry parseFloat s k v =
     (if k = ''htemp'' then
        (case Temperature_decode parseFloat v of
           Inl err \<Rightarrow> (s, Some err)
         | Inr t \<Rightarrow> (s\<lparr>HomeTemperature := t\<rparr>, None))
      else if k = ''otemp'' then
        (case Temperature_decode parseFloat v of
           Inl err \<Rightarrow> (s, Some err)
         | Inr t \<Rightarrow> (s\<lparr>OutsideTemperature := t\<rparr>, None))
      else if k = ''hhum'' then
        (case Humidity_decode v of
           Inl err \<Rightarrow> (s, Some err)
         | Inr h \<Rightarrow> (s\<lparr>Humidity := h\<rparr>, None))
      else if k = ''ret'' then
        (if v \<noteq> returnOk then (s, Some (DeviceReturnedError v)) else (s, None))
      else (s, None))"

definition SensorInfo_populate ::
  "ParseFloat \<Rightarrow> SensorInfo \<Rightarrow> (string \<times> string) list \<Rightarrow> SensorInfo \<times> error option" where
  "SensorInfo_populate parseFloat s kvs = rangeLoop (SensorInfo_entry parseFloat) s kvs"

subsection \<open>ControlInfo\<close>

record ControlInfo =
  Power :: Power
  Mode :: Mode
  Fan :: Fan
  FanDir :: FanDir
  Temperature :: Temperature
  Humidity :: Humidity

definition ControlInfo_zero :: ControlInfo where
  "ControlInfo_zero =
     \<lparr>Power = 0, Mode = 0, Fan = [], FanDir = 0, Temperature = Finite False 0 0,
      Humidity = 0\<rparr>"

definition ControlInfo_urlValues :: "ControlInfo \<Rightarrow> Values" where
  "ControlInfo_urlValues c =
     (let qStr = Map.empty;
          qStr = Power_setUrlValues (Power c) qStr;
          qStr = Mode_setUrlValues (Mode c) qStr;
          qStr = Fan_setUrlValues (Fan c) qStr;
          qStr = FanDir_setUrlValues (FanDir c) qStr;
          qStr = Temperature_setUrlValues (Temperature c) qStr;
          qStr = Humidity_setUrlValues (Humidity c) qStr
      in qStr)"

definition ControlInfo_entry ::
  "ParseFloat \<Rightarrow> ControlInfo \<Rightarrow> string \<Rightarrow> string \<Rightarrow> ControlInfo \<times> error option" where
  "ControlInfo_entry parseFloat c k v =
     (if k = ''pow'' then
        (case Power_decode v of
           Inl err \<Rightarrow> (c, Some err)
         | Inr p \<Rightarrow> (c\<lparr>Power := p\<rparr>, None))
      else if k = ''mode'' then
        (case Mode_decode v of
           Inl err \<Rightarrow> (c, Some err)
         | Inr m \<Rightarrow> (c\<lparr>Mode := m\<rparr>, None))
      else if k = ''stemp'' then
        (case Temperature_decode parseFloat v of
           Inl err \<Rightarrow> (c, Some err)
         | Inr t \<Rightarrow> (c\<lparr>Temperature := t\<rparr>, None))
      else if k = ''shum'' then
        (case Humidity_decode v of
           Inl err \<Rightarrow> (c, Some err)
         | Inr h \<Rightarrow> (c\<lparr>Humidity := h\<rparr>, None))
      else if k = ''f_rate'' then
        (case Fan_decode v of
           Inl err \<Rightarrow> (c, Some err)
         | Inr f \<Rightarrow> (c\<lparr>Fan := f\<rparr>, None))
      else if k = ''f_dir'' then
        (case FanDir_decode v of
           Inl err \<Rightarrow> (c, Some err)
         | Inr f \<Rightarrow> (c\<lparr>FanDir := f\<rparr>, None))
      else if k = ''ret'' then
        (if v \<noteq> returnOk then (c, Some (DeviceReturnedError v)) else (c, None))
      else (c, None))"

definition ControlInfo_populate ::
  "ParseFloat \<Rightarrow> ControlInfo \<Rightarrow> (string \<times> string) list \<Rightarrow> ControlInfo \<times> error option" where
  "ControlInfo_populate parseFloat c kvs = rangeLoop (ControlInfo_entry parseFloat) c kvs"

subsection \<open>WeekPower\<close>

record WeekPower =
  TodayRuntime :: Minutes
  TodayWattHours :: WattHours
  YesterdayWattHours :: WattHours
  ThreeDaysAgoWattHours :: WattHours
  FourDaysAgoWattHours :: WattHours
  FiveDaysAgoWattHours :: WattHours
  SixDaysAgoWattHours :: WattHours
  SevenDaysAgoWattHours :: WattHours

definition WeekPower_zero :: WeekPower where
  "WeekPower_zero =
     \<lparr>TodayRuntime = 0, TodayWattHours = 0, YesterdayWattHours = 0,
      ThreeDaysAgoWattHours = 0, FourDaysAgoWattHours = 0, FiveDaysAgoWattHours = 0,
      SixDaysAgoWattHours = 0, SevenDaysAgoWattHours = 0\<rparr>"

text \<open>
  \<^verbatim>\<open>strings.Split(s, sep)\<close> for a separator of one byte: the substrings between the
  separators, one more than there are separators.
\<close>

fun Split :: "string \<Rightarrow> char \<Rightarrow> string list" where
  "Split [] sep = [[]]"
| "Split (c # cs) sep =
     (if c = sep then [] # Split cs sep
      else (case Split cs sep of
              [] \<Rightarrow> [[c]]
            | w # ws \<Rightarrow> (c # w) # ws))"

text \<open>
  A call \<^verbatim>\<open>w.Field.decode(elem)\<close> whose result is dropped: the field is assigned
  when the element decodes and keeps its value when it does not.
\<close>

definition WattHours_decode_dropped :: "WattHours \<Rightarrow> string \<Rightarrow> WattHours" where
  "WattHours_decode_dropped w elem =
     (case WattHours_decode elem of Inl err \<Rightarrow> w | Inr val \<Rightarrow> val)"

definition WeekPower_entry ::
  "WeekPower \<Rightarrow> string \<Rightarrow> string \<Rightarrow> WeekPower \<times> error option" where
  "WeekPower_entry w k v =
     (if k = ''today_runtime'' then
        (case Minutes_decode v of
           Inl err \<Rightarrow> (w, Some err)
         | Inr m \<Rightarrow> (w\<lparr>TodayRuntime := m\<rparr>, None))
      else if k = ''datas'' then
        (let elems = Split v CHR ''/''
         in if length elems \<noteq> 7 then (w, Some (Expected7Elements (length elems)))
            else
              (w\<lparr>SevenDaysAgoWattHours :=
                    WattHours_decode_dropped (SevenDaysAgoWattHours w) (elems ! 0),
                  SixDaysAgoWattHours :=
                    WattHours_decode_dropped (SixDaysAgoWattHours w) (elems ! 1),
                  FiveDaysAgoWattHours :=
                    WattHours_decode_dropped (FiveDaysAgoWattHours w) (elems ! 2),
                  FourDaysAgoWattHours :=
                    WattHours_decode_dropped (FourDaysAgoWattHours w) (elems ! 3),
                  ThreeDaysAgoWattHours :=
                    WattHours_decode_dropped (ThreeDaysAgoWattHours w) (elems ! 4),
                  YesterdayWattHours :=
                    WattHours_decode_dropped (YesterdayWattHours w) (elems ! 5),
                  TodayWattHours :=
                    WattHours_decode_dropped (TodayWattHours w) (elems ! 6)\<rparr>, None))
      else if k = ''ret'' then
        (if v \<noteq> returnOk then (w, Some (DeviceReturnedError v)) else (w, None))
      else (w, None))"

definition WeekPower_populate ::
  "WeekPower \<Rightarrow> (string \<times> string) list \<Rightarrow> WeekPower \<times> error option" where
  "WeekPower_populate w kvs = rangeLoop WeekPower_entry w kvs"

subsection \<open>The device session\<close>

text \<open>
  Package net/http and the CSV reader are parameters. \<^verbatim>\<open>http.NewRequest\<close> builds
  a request when it can parse the URL and returns \<^verbatim>\<open>nil\<close> with an error when it
  cannot; \<^verbatim>\<open>client.Do\<close> answers a request with an error or a response; reading the
  body of a response gives its bytes or an error; \<^verbatim>\<open>csv.Reader.ReadAll\<close> gives the
  rows of a body or an error.
\<close>

record Request =
  URL :: string
  XDaikinUuid :: "string option"

record Response =
  StatusCode :: int
  Body :: "string + string"

record Http =
  NewRequest :: "string \<Rightarrow> bool"
  Do :: "Request \<Rightarrow> string + Response"

type_synonym CsvReadAll = "string \<Rightarrow> string + string list list"

text \<open>The runtime's choice of the order of a range loop over a wire record.\<close>

type_synonym RangeChoice = "WireRecord \<Rightarrow> (string \<times> string) list"

record Daikin =
  Address :: string
  Token :: string
  Name :: string
  ControlInfo :: "ControlInfo option"
  SensorInfo :: "SensorInfo option"
  WeekPower :: "WeekPower option"

definition uriGetControlInfo :: string where
  "uriGetControlInfo = ''/aircon/get_control_info''"

definition uriGetSensorInfo :: string where
  "uriGetSensorInfo = ''/aircon/get_sensor_info''"

definition uriGetWeekPower :: string where
  "uriGetWeekPower = ''/aircon/get_week_power''"

definition uriSetControlInfo :: string where
  "uriSetControlInfo = ''/aircon/set_control_info''"

text \<open>\<^verbatim>\<open>strings.SplitN(s, sep, 2)\<close> for a separator of one byte.\<close>

definition SplitN2 :: "string \<Rightarrow> char \<Rightarrow> string list" where
  "SplitN2 s sep =
     (if sep \<in> set s
      then [takeWhile (\<lambda>c. c \<noteq> sep) s, tl (dropWhile (\<lambda>c. c \<noteq> sep) s)]
      else [s])"

text \<open>
  The loop of \<^verbatim>\<open>parseResponse\<close> over the fields of the row. The source indexes
  \<^verbatim>\<open>parts[1]\<close> without a check of the length of \<^verbatim>\<open>parts\<close>.
\<close>

fun parseFields :: "WireRecord \<Rightarrow> string list \<Rightarrow> WireRecord outcome" where
  "parseFields values [] = Return values"
| "parseFields values (rec # recs) =
     (let parts = SplitN2 rec CHR ''=''
      in if length parts \<le> 1 then Panic (IndexOutOfRange 1 (length parts))
         else parseFields (values(parts ! 0 \<mapsto> parts ! 1)) recs)"

definition parseResponse :: "CsvReadAll \<Rightarrow> Response \<Rightarrow> (error + WireRecord) outcome" where
  "parseResponse readAll resp =
     (case Body resp of
        Inl err \<Rightarrow> Return (Inl (Foreign err))
      | Inr body \<Rightarrow>
          (case readAll body of
             Inl err \<Rightarrow> Return (Inl (Foreign err))
           | Inr records \<Rightarrow>
               if length records \<noteq> 1 then Return (Inl (RowsOfRecords (length records)))
               else (case parseFields Map.empty (records ! 0) of
                       Panic p \<Rightarrow> Panic p
                     | Return values \<Rightarrow> Return (Inr values))))"

text \<open>
  \<^verbatim>\<open>httpGet\<close> drops the error of \<^verbatim>\<open>http.NewRequest\<close>: with a URL that does
  not parse the request is \<^verbatim>\<open>nil\<close>, and the use of it panics.
\<close>

definition httpGet :: "Http \<Rightarrow> Daikin \<Rightarrow> string \<Rightarrow> (error + Response) outcome" where
  "httpGet http d path =
     (let scheme = (if Token d = [] then ''http'' else ''https'');
          url = scheme @ ''://'' @ Address d @ path
      in if \<not> NewRequest http url then Panic NilDereference
         else
           (let request = \<lparr>URL = url,
                  XDaikinUuid = (if Token d \<noteq> [] then Some (Token d) else None)\<rparr>
            in case Do http request of
                 Inl err \<Rightarrow> Return (Inl (Foreign err))
               | Inr resp \<Rightarrow>
                   if StatusCode resp \<noteq> 200
                   then Return (Inl (RequestFailed path (StatusCode resp)))
                   else Return (Inr resp)))"

text \<open>
  \<^verbatim>\<open>SetControlInfo\<close> leaves the session as it is; its result is the returned
  error (\<open>None\<close> for \<^verbatim>\<open>nil\<close>) or a panic. A key that the map does not hold reads
  as the empty string.
\<close>

definition SetControlInfo :: "Http \<Rightarrow> CsvReadAll \<Rightarrow> Daikin \<Rightarrow> error option outcome" where
  "SetControlInfo http readAll d =
     (case ControlInfo d of
        None \<Rightarrow> Panic NilDereference
      | Some c \<Rightarrow>
          (let qStr = ControlInfo_urlValues c
           in case httpGet http d (uriSetControlInfo @ ''?'' @ Values_Encode qStr) of
                Panic p \<Rightarrow> Panic p
              | Return (Inl err) \<Rightarrow> Return (Some err)
              | Return (Inr resp) \<Rightarrow>
                  (case parseResponse readAll resp of
                     Panic p \<Rightarrow> Panic p
                   | Return (Inl err) \<Rightarrow> Return (Some err)
                   | Return (Inr vals) \<Rightarrow>
                       (let v = (case vals ''ret'' of None \<Rightarrow> [] | Some x \<Rightarrow> x)
                        in if v \<noteq> ''OK'' then Return (Some (DeviceReturnedError v))
                           else Return None))))"

text \<open>
  The get operations return the session as they leave it, with the returned error or
  the panic. The record is allocated and stored in the session before the response is
  parsed, and populated in place.
\<close>

definition GetControlInfo ::
  "Http \<Rightarrow> CsvReadAll \<Rightarrow> ParseFloat \<Rightarrow> RangeChoice \<Rightarrow> Daikin \<Rightarrow>
     Daikin \<times> error option outcome" where
  "GetControlInfo http readAll parseFloat choice d =
     (case httpGet http d uriGetControlInfo of
        Panic p \<Rightarrow> (d, Panic p)
      | Return (Inl err) \<Rightarrow> (d, Return (Some err))
      | Return (Inr resp) \<Rightarrow>
          (let d = d\<lparr>ControlInfo := Some ControlInfo_zero\<rparr>
           in case parseResponse readAll resp of
                Panic p \<Rightarrow> (d, Panic p)
              | Return (Inl err) \<Rightarrow> (d, Return (Some (Prefixed ''GetControlInfo'' err)))
              | Return (Inr vals) \<Rightarrow>
                  (case ControlInfo_populate parseFloat ControlInfo_zero (choice vals) of
                     (c, r) \<Rightarrow> (d\<lparr>ControlInfo := Some c\<rparr>, Return r))))"

definition GetSensorInfo ::
  "Http \<Rightarrow> CsvReadAll \<Rightarrow> ParseFloat \<Rightarrow> RangeChoice \<Rightarrow> Daikin \<Rightarrow>
     Daikin \<times> error option outcome" where
  "GetSensorInfo http readAll parseFloat choice d =
     (case httpGet http d uriGetSensorInfo of
        Panic p \<Rightarrow> (d, Panic p)
      | Return (Inl err) \<Rightarrow> (d, Return (Some err))
      | Return (Inr resp) \<Rightarrow>
          (let d = d\<lparr>SensorInfo := Some SensorInfo_zero\<rparr>
           in case parseResponse readAll resp of
                Panic p \<Rightarrow> (d, Panic p)
              | Return (Inl err) \<Rightarrow> (d, Return (Some (Prefixed ''GetSensorInfo'' err)))
              | Return (Inr vals) \<Rightarrow>
                  (case SensorInfo_populate parseFloat SensorInfo_zero (choice vals) of
                     (s, r) \<Rightarrow> (d\<lparr>SensorInfo := Some s\<rparr>, Return r))))"

definition GetWeekPower ::
  "Http \<Rightarrow> CsvReadAll \<Rightarrow> RangeChoice \<Rightarrow> Daikin \<Rightarrow> Daikin \<times> error option outcome" where
  "GetWeekPower http readAll choice d =
     (case httpGet http d uriGetWeekPower of
        Panic p \<Rightarrow> (d, Panic p)
      | Return (Inl err) \<Rightarrow> (d, Return (Some err))
      | Return (Inr resp) \<Rightarrow>
          (let d = d\<lparr>WeekPower := Some WeekPower_zero\<rparr>
           in case parseResponse readAll resp of
                Panic p \<Rightarrow> (d, Panic p)
              | Return (Inl err) \<Rightarrow> (d, Return (Some (Prefixed ''GetWeekPower'' err)))
              | Return (Inr vals) \<Rightarrow>
                  (case WeekPower_populate WeekPower_zero (choice vals) of
                     (w, r) \<Rightarrow> (d\<lparr>WeekPower := Some w\<rparr>, Return r))))"

section \<open>Properties of the field codecs\<close>

lemmas enum_defs =
  PowerOff_def PowerOn_def ModeDehumidify_def ModeCool_def ModeHeat_def ModeFan_def
  ModeAuto_def ModeAuto1_def ModeAuto7_def FanAuto_def FanSilent_def Fan1_def Fan2_def
  Fan3_def Fan4_def Fan5_def FanDirStopped_def FanDirVertical_def FanDirHorizontal_def
  FanDirBoth_def

lemmas Atoi_defs =
  Atoi_def ParseInt_def ParseUint_def IntSize_def isDigit_def digitVal_def maxUint64_def

lemma Itoa_small:
  "Itoa 0 = ''0''" "Itoa 1 = ''1''" "Itoa 2 = ''2''" "Itoa 3 = ''3''" "Itoa 4 = ''4''"
  "Itoa 6 = ''6''" "Itoa 7 = ''7''"
  by (simp_all add: Itoa_def formatDigits.simps)

lemma Atoi_small:
  "Atoi ''0'' = Inr 0" "Atoi ''1'' = Inr 1" "Atoi ''2'' = Inr 2" "Atoi ''3'' = Inr 3"
  by (simp_all add: Atoi_defs)

lemma Power_roundtrip: "p \<in> set Power_values \<Longrightarrow> Power_decode (Power_token p) = Inr p"
  by (auto simp: Power_values_def Power_decode_def Power_token_def enum_defs Itoa_small)

lemma Mode_roundtrip: "m \<in> set Mode_values \<Longrightarrow> Mode_decode (Mode_token m) = Inr m"
  by (auto simp: Mode_values_def Mode_decode_def Mode_token_def enum_defs Itoa_small)

lemma Fan_roundtrip: "f \<in> set Fan_values \<Longrightarrow> Fan_decode (Fan_token f) = Inr f"
  by (auto simp: Fan_values_def Fan_decode_def Fan_token_def enum_defs)

lemma FanDir_roundtrip:
  "f \<in> set FanDir_values \<Longrightarrow> FanDir_decode (FanDir_token f) = Inr f"
  by (auto simp: FanDir_values_def FanDir_decode_def FanDir_token_def fanDirMap_def
      enum_defs Itoa_small Atoi_small)

text \<open>
  Claim C6. For every value that the constant blocks of Power, Mode, Fan and FanDir
  define, decoding the wire token that \<^verbatim>\<open>setUrlValues\<close> writes for it gives the value
  back.
\<close>

theorem C6_decode_encode_roundtrip:
  "(p \<in> set Power_values \<longrightarrow> Power_decode (Power_token p) = Inr p) \<and>
   (m \<in> set Mode_values \<longrightarrow> Mode_decode (Mode_token m) = Inr m) \<and>
   (f \<in> set Fan_values \<longrightarrow> Fan_decode (Fan_token f) = Inr f) \<and>
   (fd \<in> set FanDir_values \<longrightarrow> FanDir_decode (FanDir_token fd) = Inr fd)"
  using Power_roundtrip Mode_roundtrip Fan_roundtrip FanDir_roundtrip by blast

theorem C6_roundtrip_witness:
  "PowerOn \<in> set Power_values \<and> Power_decode (Power_token PowerOn) = Inr PowerOn \<and>
   ModeAuto7 \<in> set Mode_values \<and> Mode_decode (Mode_token ModeAuto7) = Inr ModeAuto7 \<and>
   Fan5 \<in> set Fan_values \<and> Fan_decode (Fan_token Fan5) = Inr Fan5 \<and>
   FanDirBoth \<in> set FanDir_values \<and>
   FanDir_decode (FanDir_token FanDirBoth) = Inr FanDirBoth"
  using C6_decode_encode_roundtrip [of PowerOn ModeAuto7 Fan5 FanDirBoth]
  by (simp add: Power_values_def Mode_values_def Fan_values_def FanDir_values_def)

text \<open>
  Claim C9. The wire tokens "0", "1" and "7" decode to three distinct Mode values, each
  of which is written back as the token it came from, and \<^verbatim>\<open>String\<close> renders all
  three as "Auto".
\<close>

theorem C9_auto_variants:
  "Mode_decode ''0'' = Inr ModeAuto \<and> Mode_decode ''1'' = Inr ModeAuto1 \<and>
   Mode_decode ''7'' = Inr ModeAuto7 \<and>
   distinct [ModeAuto, ModeAuto1, ModeAuto7] \<and>
   Mode_token ModeAuto = ''0'' \<and> Mode_token ModeAuto1 = ''1'' \<and>
   Mode_token ModeAuto7 = ''7'' \<and>
   Mode_String ModeAuto = ''Auto'' \<and> Mode_String ModeAuto1 = ''Auto'' \<and>
   Mode_String ModeAuto7 = ''Auto''"
  by (simp add: Mode_decode_def Mode_token_def Mode_String_def modeMap_def enum_defs
      Itoa_small)

subsection \<open>strconv.Atoi accepts the integer tokens within the range of int\<close>

lemma isDigit_digitVal: "isDigit c \<Longrightarrow> digitVal c \<le> 9"
  unfolding isDigit_def digitVal_def less_eq_char_def by simp arith

lemma decimalValue_Nil: "decimalValue [] = 0"
  by (simp add: decimalValue_def)

lemma foldl_decimal_acc:
  "foldl (\<lambda>n c. n * 10 + digitVal c) a cs = a * 10 ^ length cs + decimalValue cs"
proof (induction cs arbitrary: a)
  case Nil
  show ?case by (simp add: decimalValue_def)
next
  case (Cons c cs)
  have "foldl (\<lambda>n c. n * 10 + digitVal c) a (c # cs)
        = (a * 10 + digitVal c) * 10 ^ length cs + decimalValue cs"
    using Cons.IH [of "a * 10 + digitVal c"] by simp
  moreover have "decimalValue (c # cs) = digitVal c * 10 ^ length cs + decimalValue cs"
    using Cons.IH [of "digitVal c"] by (simp add: decimalValue_def)
  ultimately show ?case by (simp add: algebra_simps)
qed

lemma decimalValue_Cons:
  "decimalValue (c # cs) = digitVal c * 10 ^ length cs + decimalValue cs"
  using foldl_decimal_acc [of "digitVal c" cs] by (simp add: decimalValue_def)

lemma ParseUint_loop_Inr:
  assumes "maxVal < 2 ^ 64"
  shows "ParseUint_loop maxVal n cs = Inr v \<longleftrightarrow>
         list_all isDigit cs \<and> v = n * 10 ^ length cs + decimalValue cs \<and>
         (cs \<noteq> [] \<longrightarrow> v \<le> maxVal)"
proof (induction cs arbitrary: n)
  case Nil
  show ?case by (auto simp: decimalValue_Nil)
next
  case (Cons c cs)
  show ?case
  proof (cases "isDigit c")
    case False
    then show ?thesis by simp
  next
    case True
    note d9 = isDigit_digitVal [OF True]
    have pos: "(1::nat) \<le> 10 ^ length cs" by simp
    let ?rest = "10 ^ length cs :: nat"
    let ?total = "n * 10 ^ length (c # cs) + decimalValue (c # cs)"
    have total: "?total = (n * 10 + digitVal c) * ?rest + decimalValue cs"
      by (simp add: decimalValue_Cons algebra_simps)
    have ge: "n * 10 + digitVal c \<le> ?total"
    proof -
      have "(n * 10 + digitVal c) * 1 \<le> (n * 10 + digitVal c) * ?rest"
        by (rule mult_le_mono2) (rule pos)
      then have "n * 10 + digitVal c \<le> (n * 10 + digitVal c) * ?rest"
        by (simp only: mult_1_right)
      then have "n * 10 + digitVal c \<le> (n * 10 + digitVal c) * ?rest + decimalValue cs"
        by (rule trans_le_add1)
      then show ?thesis by (simp only: total)
    qed
    show ?thesis
    proof (cases "n \<ge> maxUint64 div 10 + 1")
      case big: True
      then have "2 ^ 64 \<le> n * 10" by (simp add: maxUint64_def)
      then have "maxVal < ?total" using ge assms by linarith
      with True big show ?thesis by auto
    next
      case small: False
      then have n10: "n * 10 + digitVal c < 2 * 2 ^ 64" using d9 by (simp add: maxUint64_def)
      show ?thesis
      proof (cases "n * 10 + digitVal c < 2 ^ 64")
        case nowrap: True
        then have m: "(n * 10 + digitVal c) mod 2 ^ 64 = n * 10 + digitVal c" by simp
        show ?thesis
        proof (cases "n * 10 + digitVal c > maxVal")
          case True
          then have "maxVal < ?total" using ge by linarith
          with \<open>isDigit c\<close> small m True show ?thesis by (auto simp: Let_def)
        next
          case False
          have "ParseUint_loop maxVal n (c # cs) = ParseUint_loop maxVal (n * 10 + digitVal c) cs"
            using \<open>isDigit c\<close> small m False by (simp add: Let_def)
          also have "\<dots> = Inr v \<longleftrightarrow> list_all isDigit cs \<and>
              v = (n * 10 + digitVal c) * ?rest + decimalValue cs \<and> (cs \<noteq> [] \<longrightarrow> v \<le> maxVal)"
            by (rule Cons.IH)
          finally show ?thesis using \<open>isDigit c\<close> False total
            by (cases cs) (auto simp: decimalValue_Nil)
        qed
      next
        case wrap: False
        have nine: "(9::nat) < 2 ^ 64" by simp
        have m: "(n * 10 + digitVal c) mod 2 ^ 64 = n * 10 + digitVal c - 2 ^ 64"
          using wrap n10 by (simp add: mod_if)
        have "n * 10 + digitVal c - 2 ^ 64 < n * 10" using nine wrap d9 n10 by linarith
        with m have lt: "(n * 10 + digitVal c) mod 2 ^ 64 < n * 10" by simp
        have "maxVal < ?total" using ge wrap assms by linarith
        with \<open>isDigit c\<close> small lt show ?thesis by (auto simp: Let_def)
      qed
    qed
  qed
qed

lemma ParseUint_64_Inr:
  "ParseUint s 64 = Inr v \<longleftrightarrow> s \<noteq> [] \<and> list_all isDigit s \<and> v = decimalValue s \<and> v < 2 ^ 64"
proof -
  have "ParseUint_loop (2 ^ 64 - 1) 0 s = Inr v \<longleftrightarrow>
        list_all isDigit s \<and> v = 0 * 10 ^ length s + decimalValue s \<and>
        (s \<noteq> [] \<longrightarrow> v \<le> 2 ^ 64 - 1)"
    by (rule ParseUint_loop_Inr) simp
  then show ?thesis by (auto simp: ParseUint_def)
qed

lemma Atoi_Inr:
  "Atoi s = Inr v \<longleftrightarrow> integerToken s = Some v \<and> - (2 ^ 63) \<le> v \<and> v < 2 ^ 63"
proof (cases s)
  case Nil
  then show ?thesis by (simp add: Atoi_def ParseInt_def integerToken_def)
next
  case (Cons c cs)
  consider (minus) "c = CHR ''-''" | (plus) "c = CHR ''+''"
    | (other) "c \<noteq> CHR ''-''" "c \<noteq> CHR ''+''" by blast
  then show ?thesis
  proof cases
    case minus
    show ?thesis
    proof (cases "ParseUint cs 64")
      case (Inl e)
      then have "\<not> (cs \<noteq> [] \<and> list_all isDigit cs \<and> decimalValue cs < 2 ^ 64)"
        using ParseUint_64_Inr [of cs "decimalValue cs"] by auto
      with Inl Cons minus show ?thesis
        by (cases e) (auto simp: Atoi_def ParseInt_def IntSize_def integerToken_def)
    next
      case (Inr un)
      then have "cs \<noteq> [] \<and> list_all isDigit cs \<and> un = decimalValue cs \<and> un < 2 ^ 64"
        using ParseUint_64_Inr [of cs un] by simp
      with Inr Cons minus show ?thesis
        by (auto simp: Atoi_def ParseInt_def IntSize_def integerToken_def)
    qed
  next
    case plus
    show ?thesis
    proof (cases "ParseUint cs 64")
      case (Inl e)
      then have "\<not> (cs \<noteq> [] \<and> list_all isDigit cs \<and> decimalValue cs < 2 ^ 64)"
        using ParseUint_64_Inr [of cs "decimalValue cs"] by auto
      with Inl Cons plus show ?thesis
        by (cases e) (auto simp: Atoi_def ParseInt_def IntSize_def integerToken_def)
    next
      case (Inr un)
      then have "cs \<noteq> [] \<and> list_all isDigit cs \<and> un = decimalValue cs \<and> un < 2 ^ 64"
        using ParseUint_64_Inr [of cs un] by simp
      with Inr Cons plus show ?thesis
        by (auto simp: Atoi_def ParseInt_def IntSize_def integerToken_def)
    qed
  next
    case other
    show ?thesis
    proof (cases "ParseUint s 64")
      case (Inl e)
      then have "\<not> (list_all isDigit s \<and> decimalValue s < 2 ^ 64)"
        using ParseUint_64_Inr [of s "decimalValue s"] Cons by auto
      with Inl Cons other show ?thesis
        by (cases e) (auto simp: Atoi_def ParseInt_def IntSize_def integerToken_def)
    next
      case (Inr un)
      then have "list_all isDigit s \<and> un = decimalValue s \<and> un < 2 ^ 64"
        using ParseUint_64_Inr [of s un] by simp
      with Inr Cons other show ?thesis
        by (auto simp: Atoi_def ParseInt_def IntSize_def integerToken_def)
    qed
  qed
qed

lemma Atoi_Inl: "(\<exists>e. Atoi s = Inl e) \<longleftrightarrow> \<not> int64Token s"
proof -
  have "(\<exists>v. Atoi s = Inr v) \<longleftrightarrow> int64Token s"
    by (auto simp: Atoi_Inr int64Token_def split: option.splits)
  moreover have "(\<exists>e. Atoi s = Inl e) \<longleftrightarrow> \<not> (\<exists>v. Atoi s = Inr v)"
    by (cases "Atoi s") auto
  ultimately show ?thesis by simp
qed

subsection \<open>The integer decoders\<close>

lemma sint32_of_int:
  "- (2 ^ 31) \<le> v \<Longrightarrow> v < 2 ^ 31 \<Longrightarrow> sint (word_of_int v :: 32 word) = v"
  by (simp add: signed_of_int signed_take_bit_int_eq_self)

lemma fanDirMap_dom: "fanDirMap v \<noteq> None \<longleftrightarrow> 0 \<le> v \<and> v \<le> 3"
  by (auto simp: fanDirMap_def enum_defs)

lemma Atoi_int32:
  assumes "integerToken s = Some v" "- (2 ^ 31) \<le> v" "v < 2 ^ 31"
  shows "Atoi s = Inr v"
proof -
  have "- (2 ^ 63) \<le> v" "v < 2 ^ 63" using assms(2,3) by simp_all
  with assms(1) show ?thesis by (simp add: Atoi_Inr)
qed

lemma FanDir_decode_Inr:
  "FanDir_decode s = Inr v \<longleftrightarrow> integerToken s = Some v \<and> 0 \<le> v \<and> v \<le> 3"
proof (cases "Atoi s")
  case (Inl e)
  have "\<not> (integerToken s = Some v \<and> 0 \<le> v \<and> v \<le> 3)"
  proof
    assume a: "integerToken s = Some v \<and> 0 \<le> v \<and> v \<le> 3"
    then have "Atoi s = Inr v" by (intro Atoi_int32) simp_all
    with Inl show False by simp
  qed
  with Inl show ?thesis by (auto simp: FanDir_decode_def)
next
  case (Inr u)
  then have u: "integerToken s = Some u" by (simp add: Atoi_Inr)
  show ?thesis
  proof (cases "fanDirMap u")
    case None
    with fanDirMap_dom [of u] have "\<not> (0 \<le> u \<and> u \<le> 3)" by simp
    with Inr None u show ?thesis by (auto simp: FanDir_decode_def)
  next
    case (Some x)
    with fanDirMap_dom [of u] have "0 \<le> u \<and> u \<le> 3" by simp
    with Inr Some u show ?thesis by (auto simp: FanDir_decode_def)
  qed
qed

text \<open>
  Claim C10. \<^verbatim>\<open>FanDir.decode\<close> accepts exactly the integer tokens (an optional
  sign, then decimal digits) whose value is 0, 1, 2 or 3; so "+3" and "03" decode to
  the value that "3" decodes to.
\<close>

theorem C10_FanDir_noncanonical_tokens:
  "(FanDir_decode s = Inr v \<longleftrightarrow> integerToken s = Some v \<and> 0 \<le> v \<and> v \<le> 3) \<and>
   FanDir_decode ''3'' = Inr FanDirBoth \<and>
   FanDir_decode ''+3'' = Inr FanDirBoth \<and>
   FanDir_decode ''03'' = Inr FanDirBoth"
proof -
  have "FanDir_decode ''3'' = Inr FanDirBoth" "FanDir_decode ''+3'' = Inr FanDirBoth"
    "FanDir_decode ''03'' = Inr FanDirBoth"
    by (simp_all add: FanDir_decode_def fanDirMap_def enum_defs Atoi_defs)
  with FanDir_decode_Inr show ?thesis by blast
qed

theorem C10_noncanonical_witness:
  "integerToken ''+003'' = Some 3 \<and> FanDir_decode ''+003'' = Inr 3"
proof -
  have "integerToken ''+003'' = Some 3"
    by (simp add: integerToken_def isDigit_def decimalValue_def digitVal_def)
  then show ?thesis
    using C10_FanDir_noncanonical_tokens [of "''+003''" 3] by simp
qed

lemma int_decoders:
  "Humidity_decode s = (if s = ''-'' then Inr (- 1) else
     case Atoi s of Inl err \<Rightarrow> Inl (ErrorParsingSHum s err) | Inr val \<Rightarrow> Inr (word_of_int val))"
  "WattHours_decode s = (if s = ''-'' then Inr (- 1) else
     case Atoi s of Inl err \<Rightarrow> Inl (ErrorParsingWattHours s err) | Inr val \<Rightarrow> Inr (word_of_int val))"
  "Minutes_decode s = (if s = ''-'' then Inr (- 1) else
     case Atoi s of Inl err \<Rightarrow> Inl (ErrorParsingMinutes s err) | Inr val \<Rightarrow> Inr (word_of_int val))"
  by (simp_all add: Humidity_decode_def WattHours_decode_def Minutes_decode_def Atoi_defs)

lemma integerToken_dash: "integerToken ''-'' = None"
  by (simp add: integerToken_def)

text \<open>
  Claim C8, as amended. The decoders of Humidity, WattHours and Minutes give -1 for
  the token "-"; they give the value of every integer token whose value an
  \<^verbatim>\<open>int32\<close> holds; and they fail exactly on the tokens that are neither "-" nor an
  integer token whose value a 64-bit \<^verbatim>\<open>int\<close> holds.
\<close>

theorem C8_integer_decoders:
  "Humidity_decode ''-'' = Inr (- 1) \<and> WattHours_decode ''-'' = Inr (- 1) \<and>
   Minutes_decode ''-'' = Inr (- 1) \<and>
   (integerToken s = Some v \<and> - (2 ^ 31) \<le> v \<and> v < 2 ^ 31 \<longrightarrow>
      (\<exists>h. Humidity_decode s = Inr h \<and> sint h = v) \<and>
      (\<exists>w. WattHours_decode s = Inr w \<and> sint w = v) \<and>
      (\<exists>m. Minutes_decode s = Inr m \<and> sint m = v)) \<and>
   ((\<exists>e. Humidity_decode s = Inl e) \<longleftrightarrow> s \<noteq> ''-'' \<and> \<not> int64Token s) \<and>
   ((\<exists>e. WattHours_decode s = Inl e) \<longleftrightarrow> s \<noteq> ''-'' \<and> \<not> int64Token s) \<and>
   ((\<exists>e. Minutes_decode s = Inl e) \<longleftrightarrow> s \<noteq> ''-'' \<and> \<not> int64Token s)"
proof -
  have dash: "Humidity_decode ''-'' = Inr (- 1)" "WattHours_decode ''-'' = Inr (- 1)"
    "Minutes_decode ''-'' = Inr (- 1)"
    by (simp_all add: int_decoders)
  have vals: "(\<exists>h. Humidity_decode s = Inr h \<and> sint h = v) \<and>
      (\<exists>w. WattHours_decode s = Inr w \<and> sint w = v) \<and>
      (\<exists>m. Minutes_decode s = Inr m \<and> sint m = v)"
    if tok: "integerToken s = Some v" and lo: "- (2 ^ 31) \<le> v" and hi: "v < 2 ^ 31"
  proof -
    have "s \<noteq> ''-''" using tok integerToken_dash by auto
    moreover have "Atoi s = Inr v" using tok lo hi by (rule Atoi_int32)
    moreover have "sint (word_of_int v :: 32 word) = v" using lo hi by (rule sint32_of_int)
    ultimately show ?thesis by (simp add: int_decoders)
  qed
  have fails: "(\<exists>e. Humidity_decode s = Inl e) \<longleftrightarrow> s \<noteq> ''-'' \<and> \<not> int64Token s"
    "(\<exists>e. WattHours_decode s = Inl e) \<longleftrightarrow> s \<noteq> ''-'' \<and> \<not> int64Token s"
    "(\<exists>e. Minutes_decode s = Inl e) \<longleftrightarrow> s \<noteq> ''-'' \<and> \<not> int64Token s"
    using Atoi_Inl [of s] by (auto simp: int_decoders split: sum.splits)
  from dash vals fails show ?thesis by blast
qed

theorem C8_decoders_witness:
  "integerToken ''50'' = Some 50 \<and> - (2 ^ 31) \<le> (50::int) \<and> (50::int) < 2 ^ 31 \<and>
   Humidity_decode ''50'' = Inr 50 \<and> sint (50 :: 32 word) = 50 \<and>
   ''5x'' \<noteq> ''-'' \<and> \<not> int64Token ''5x'' \<and> (\<exists>e. Humidity_decode ''5x'' = Inl e)"
proof -
  have a: "integerToken ''50'' = Some 50"
    by (simp add: integerToken_def isDigit_def decimalValue_def digitVal_def)
  have b: "\<not> int64Token ''5x''"
    by (simp add: int64Token_def integerToken_def isDigit_def)
  have c: "Humidity_decode ''50'' = Inr 50"
    by (simp add: Humidity_decode_def Atoi_defs)
  from a b c show ?thesis
    using C8_integer_decoders [of "''50''" 50] C8_integer_decoders [of "''5x''" 0]
    by simp
qed

text \<open>
  Claim C8 as stated fails: a token of twenty nines is a well-formed integer and is
  rejected (\<^verbatim>\<open>strconv.Atoi\<close> reports a range error), and the token "4294967346"
  decodes to 50, the low 32 bits of its value.
\<close>

theorem C8_counterexample:
  "integerToken ''99999999999999999999'' = Some 99999999999999999999 \<and>
   Humidity_decode ''99999999999999999999'' =
     Inl (ErrorParsingSHum ''99999999999999999999'' ErrRange) \<and>
   integerToken ''4294967346'' = Some 4294967346 \<and>
   Humidity_decode ''4294967346'' = Inr 50"
  by (simp add: integerToken_def decimalValue_def Humidity_decode_def Atoi_defs)

section \<open>The request builder\<close>

text \<open>However 23 is written as a mantissa and an exponent, it is formatted as "23.0".\<close>

lemma roundTenths_23: "roundTenths (23 * 2 ^ k) (- int k) = 230"
proof (cases k)
  case 0
  then show ?thesis by (simp add: roundTenths_def)
next
  case (Suc j)
  have q: "(23 * 2 ^ k * 10) div 2 ^ k = (230::nat)" by simp
  have r: "(23 * 2 ^ k * 10) mod 2 ^ k = (0::nat)" by simp
  have neg: "\<not> 0 \<le> - int k" using Suc by simp
  have d: "(2::nat) ^ nat (- (- int k)) = 2 ^ k" by simp
  show ?thesis
    unfolding roundTenths_def Let_def using neg by (simp only: d q r if_False) simp
qed

lemma FormatFloat_23: "FormatFloat_f1 (Finite False (23 * 2 ^ k) (- int k)) = ''23.0''"
  by (simp add: FormatFloat_f1_def roundTenths_23 formatDigits.simps)

lemmas setUrlValues_defs =
  Power_setUrlValues_def Mode_setUrlValues_def Fan_setUrlValues_def FanDir_setUrlValues_def
  Temperature_setUrlValues_def Humidity_setUrlValues_def Values_Set_def

lemma urlValues_map:
  "ControlInfo_urlValues c =
     [''pow'' \<mapsto> [Power_token (Power c)], ''mode'' \<mapsto> [Mode_token (Mode c)],
      ''f_rate'' \<mapsto> [Fan_token (Fan c)], ''f_dir'' \<mapsto> [FanDir_token (FanDir c)],
      ''stemp'' \<mapsto> [Temperature_String (Temperature c)],
      ''shum'' \<mapsto> [Humidity_String (Humidity c)]]"
  by (simp add: ControlInfo_urlValues_def setUrlValues_defs)

lemma urlValues_dom:
  "dom (ControlInfo_urlValues c) =
     set [''f_dir'', ''f_rate'', ''mode'', ''pow'', ''shum'', ''stemp'']"
  by (auto simp: urlValues_map)

lemma urlValues_keys:
  "sorted_list_of_set (dom (ControlInfo_urlValues c)) =
     [''f_dir'', ''f_rate'', ''mode'', ''pow'', ''shum'', ''stemp'']"
  unfolding urlValues_dom
  by (rule sorted_list_of_set.idem_if_sorted_distinct) simp_all

lemma urlValues_sorted:
  "Values_sorted (ControlInfo_urlValues c) =
     [(''f_dir'', FanDir_token (FanDir c)), (''f_rate'', Fan_token (Fan c)),
      (''mode'', Mode_token (Mode c)), (''pow'', Power_token (Power c)),
      (''shum'', Humidity_String (Humidity c)),
      (''stemp'', Temperature_String (Temperature c))]"
  unfolding Values_sorted_def urlValues_keys by (simp add: urlValues_map)

text \<open>
  Claim C5, as amended. \<^verbatim>\<open>urlValues\<close> gives a parameter set with exactly the six
  names pow, mode, f_rate, f_dir, stemp and shum, each with the token of its field. The
  set has no order; the query that \<^verbatim>\<open>SetControlInfo\<close> sends lists the parameters
  sorted by name: f_dir, f_rate, mode, pow, shum, stemp. For the record {Power=On,
  Mode=Cool, Fan=Auto, FanDir=Both, Temperature=23.0, Humidity=-1} the query is
  f_dir=3, f_rate=A, mode=3, pow=1, shum=-1, stemp=23.0, joined by ampersands.
\<close>

theorem C5_request_parameters:
  "dom (ControlInfo_urlValues c) = {''pow'', ''mode'', ''f_rate'', ''f_dir'', ''stemp'', ''shum''} \<and>
   Values_sorted (ControlInfo_urlValues c) =
     [(''f_dir'', FanDir_token (FanDir c)), (''f_rate'', Fan_token (Fan c)),
      (''mode'', Mode_token (Mode c)), (''pow'', Power_token (Power c)),
      (''shum'', Humidity_String (Humidity c)),
      (''stemp'', Temperature_String (Temperature c))] \<and>
   Values_Encode (ControlInfo_urlValues
     \<lparr>Power = PowerOn, Mode = ModeCool, Fan = FanAuto, FanDir = FanDirBoth,
      Temperature = Finite False 23 0, Humidity = - 1\<rparr>) =
     ''f_dir=3&f_rate=A&mode=3&pow=1&shum=-1&stemp=23.0''"
proof -
  have "dom (ControlInfo_urlValues c) = {''pow'', ''mode'', ''f_rate'', ''f_dir'', ''stemp'', ''shum''}"
    by (auto simp: urlValues_dom)
  moreover note urlValues_sorted [of c]
  moreover have "Values_Encode (ControlInfo_urlValues
     \<lparr>Power = PowerOn, Mode = ModeCool, Fan = FanAuto, FanDir = FanDirBoth,
      Temperature = Finite False 23 0, Humidity = - 1\<rparr>) =
     ''f_dir=3&f_rate=A&mode=3&pow=1&shum=-1&stemp=23.0''"
    unfolding Values_Encode_def urlValues_sorted
    by (simp add: FanDir_token_def Fan_token_def Mode_token_def Power_token_def
        Humidity_String_def Temperature_String_def FormatFloat_f1_def roundTenths_def Itoa_def
        formatDigits.simps PowerOn_def ModeCool_def FanAuto_def FanDirBoth_def QueryEscape_def
        shouldEscape_def)
  ultimately show ?thesis by blast
qed

text \<open>
  Claim C5 as stated fails: for its example record the parameters come in the order
  f_dir, f_rate, mode, pow, shum, stemp and not in the order pow, mode, f_rate, f_dir,
  stemp, shum.
\<close>

theorem C5_counterexample:
  "Values_sorted (ControlInfo_urlValues
     \<lparr>Power = PowerOn, Mode = ModeCool, Fan = FanAuto, FanDir = FanDirBoth,
      Temperature = Finite False 23 0, Humidity = - 1\<rparr>) =
     [(''f_dir'', ''3''), (''f_rate'', ''A''), (''mode'', ''3''), (''pow'', ''1''),
      (''shum'', ''-1''), (''stemp'', ''23.0'')] \<and>
   Values_sorted (ControlInfo_urlValues
     \<lparr>Power = PowerOn, Mode = ModeCool, Fan = FanAuto, FanDir = FanDirBoth,
      Temperature = Finite False 23 0, Humidity = - 1\<rparr>) \<noteq>
     [(''pow'', ''1''), (''mode'', ''3''), (''f_rate'', ''A''), (''f_dir'', ''3''),
      (''stemp'', ''23.0''), (''shum'', ''-1'')]"
  unfolding urlValues_sorted
  by (simp add: FanDir_token_def Fan_token_def Mode_token_def Power_token_def
      Humidity_String_def Temperature_String_def FormatFloat_f1_def roundTenths_def Itoa_def
      formatDigits.simps PowerOn_def ModeCool_def FanAuto_def FanDirBoth_def)

section \<open>The populate methods\<close>

subsection \<open>The range loop\<close>

lemma rangeLoop_Cons_None:
  "body r k v = (r', None) \<Longrightarrow> rangeLoop body r ((k, v) # kvs) = rangeLoop body r' kvs"
  by simp

lemma rangeLoop_Cons_Some:
  "body r k v = (r', Some e) \<Longrightarrow> rangeLoop body r ((k, v) # kvs) = (r', Some e)"
  by simp

text \<open>An entry whose visit fails makes the loop fail, wherever the entry stands.\<close>

lemma rangeLoop_fails:
  assumes indep: "\<And>r r'. snd (body r k v) = snd (body r' k v)"
    and "(k, v) \<in> set kvs" and "snd (body r0 k v) = Some e0"
  shows "\<exists>e. snd (rangeLoop body r kvs) = Some e"
  using assms(2)
proof (induction kvs arbitrary: r)
  case Nil
  then show ?case by simp
next
  case (Cons kv kvs)
  obtain k' v' where kv: "kv = (k', v')" by (cases kv)
  obtain r' x where en: "body r k' v' = (r', x)" by (cases "body r k' v'")
  show ?case
  proof (cases x)
    case (Some e)
    with kv en show ?thesis by simp
  next
    case None
    have "(k, v) \<in> set kvs"
    proof (rule ccontr)
      assume "(k, v) \<notin> set kvs"
      with Cons.prems kv have "k' = k" "v' = v" by simp_all
      with en None have "snd (body r k v) = None" by simp
      with assms(3) indep [of r r0] show False by simp
    qed
    then have "\<exists>e. snd (rangeLoop body r' kvs) = Some e" by (rule Cons.IH)
    with kv en None show ?thesis by simp
  qed
qed

text \<open>The error of the loop is the error of the visit of one of its entries.\<close>

lemma rangeLoop_error_source:
  "snd (rangeLoop body r kvs) = Some e \<Longrightarrow>
   \<exists>k v r'. (k, v) \<in> set kvs \<and> snd (body r' k v) = Some e"
proof (induction kvs arbitrary: r)
  case Nil
  then show ?case by simp
next
  case (Cons kv kvs)
  obtain k' v' where kv: "kv = (k', v')" by (cases kv)
  obtain r' x where en: "body r k' v' = (r', x)" by (cases "body r k' v'")
  show ?case
  proof (cases x)
    case (Some e')
    with kv en Cons.prems have "snd (body r k' v') = Some e" by simp
    with kv show ?thesis by auto
  next
    case None
    with kv en Cons.prems have "snd (rangeLoop body r' kvs) = Some e" by simp
    then obtain k v r'' where "(k, v) \<in> set kvs" "snd (body r'' k v) = Some e"
      using Cons.IH by blast
    then show ?thesis by auto
  qed
qed

text \<open>
  A loop that fails has run without error on the entries before the failing one, and
  returns the record as the visit of the failing entry left it.
\<close>

lemma rangeLoop_stops:
  "rangeLoop body r kvs = (r', Some e) \<Longrightarrow>
   \<exists>pre k v post r''. kvs = pre @ (k, v) # post \<and> rangeLoop body r pre = (r'', None) \<and>
     body r'' k v = (r', Some e)"
proof (induction kvs arbitrary: r)
  case Nil
  then show ?case by simp
next
  case (Cons kv kvs)
  obtain k' v' where kv: "kv = (k', v')" by (cases kv)
  obtain r1 x where en: "body r k' v' = (r1, x)" by (cases "body r k' v'")
  show ?case
  proof (cases x)
    case (Some e')
    with kv en Cons.prems have "body r k' v' = (r', Some e)" by simp
    then have "kv # kvs = [] @ (k', v') # kvs \<and> rangeLoop body r [] = (r, None) \<and>
        body r k' v' = (r', Some e)"
      using kv by simp
    then show ?thesis by blast
  next
    case None
    with kv en Cons.prems have "rangeLoop body r1 kvs = (r', Some e)" by simp
    then obtain pre k v post r'' where p: "kvs = pre @ (k, v) # post"
      "rangeLoop body r1 pre = (r'', None)" "body r'' k v = (r', Some e)"
      using Cons.IH by blast
    have "kv # kvs = (kv # pre) @ (k, v) # post \<and> rangeLoop body r (kv # pre) = (r'', None) \<and>
        body r'' k v = (r', Some e)"
      using p kv en None by simp
    then show ?thesis by blast
  qed
qed




lemma rangeOrder_entries:
  "rangeOrder values kvs \<Longrightarrow> (k, v) \<in> set kvs \<longleftrightarrow> values k = Some v"
  by (auto simp: rangeOrder_def)

lemma ControlInfo_entry_ret:
  "ControlInfo_entry pf c ''ret'' v =
     (if v \<noteq> ''OK'' then (c, Some (DeviceReturnedError v)) else (c, None))"
  by (simp add: ControlInfo_entry_def returnOk_def)

lemma SensorInfo_entry_ret:
  "SensorInfo_entry pf s ''ret'' v =
     (if v \<noteq> ''OK'' then (s, Some (DeviceReturnedError v)) else (s, None))"
  by (simp add: SensorInfo_entry_def returnOk_def)

lemma WeekPower_entry_ret:
  "WeekPower_entry w ''ret'' v =
     (if v \<noteq> ''OK'' then (w, Some (DeviceReturnedError v)) else (w, None))"
  by (simp add: WeekPower_entry_def returnOk_def)

lemma ControlInfo_entry_error:
  "snd (ControlInfo_entry pf c k v) = snd (ControlInfo_entry pf c' k v)"
proof -
  consider "k = ''pow''" | "k = ''mode''" | "k = ''stemp''" | "k = ''shum''"
    | "k = ''f_rate''" | "k = ''f_dir''"
    | "k \<notin> set [''pow'', ''mode'', ''stemp'', ''shum'', ''f_rate'', ''f_dir'']" by auto
  then show ?thesis
    by cases (simp_all add: ControlInfo_entry_def split: sum.splits)
qed

lemma SensorInfo_entry_error:
  "snd (SensorInfo_entry pf s k v) = snd (SensorInfo_entry pf s' k v)"
proof -
  consider "k = ''htemp''" | "k = ''otemp''" | "k = ''hhum''"
    | "k \<notin> set [''htemp'', ''otemp'', ''hhum'']" by auto
  then show ?thesis
    by cases (simp_all add: SensorInfo_entry_def split: sum.splits)
qed

lemma WeekPower_entry_error:
  "snd (WeekPower_entry w k v) = snd (WeekPower_entry w' k v)"
proof -
  consider "k = ''today_runtime''" | "k = ''datas''"
    | "k \<notin> set [''today_runtime'', ''datas'']" by auto
  then show ?thesis
    by cases (simp_all add: WeekPower_entry_def Let_def split: sum.splits)
qed

text \<open>With a "ret" other than "OK" among its entries, a loop fails.\<close>

lemma ret_fails:
  assumes indep: "\<And>r r' k v. snd (body r k v) = snd (body r' k v)"
    and ret: "\<And>r v. body r ''ret'' v =
          (if v \<noteq> ''OK'' then (r, Some (DeviceReturnedError v)) else (r, None))"
    and "rangeOrder values kvs" "values ''ret'' = Some code" "code \<noteq> ''OK''"
  shows "\<exists>e. snd (rangeLoop body r kvs) = Some e"
proof -
  have "(''ret'', code) \<in> set kvs" using assms(3,4) by (simp add: rangeOrder_entries)
  moreover have "snd (body r ''ret'' code) = Some (DeviceReturnedError code)"
    using ret assms(5) by simp
  ultimately show ?thesis using indep by (intro rangeLoop_fails [where ?r0.0 = r]) auto
qed

text \<open>When no other entry fails, the error is the device's.\<close>

lemma ret_error:
  assumes indep: "\<And>r r' k v. snd (body r k v) = snd (body r' k v)"
    and ret: "\<And>r v. body r ''ret'' v =
          (if v \<noteq> ''OK'' then (r, Some (DeviceReturnedError v)) else (r, None))"
    and "rangeOrder values kvs" "values ''ret'' = Some code" "code \<noteq> ''OK''"
    and others: "\<forall>k v. values k = Some v \<and> k \<noteq> ''ret'' \<longrightarrow> snd (body r k v) = None"
  shows "snd (rangeLoop body r kvs) = Some (DeviceReturnedError code)"
proof -
  obtain e where e: "snd (rangeLoop body r kvs) = Some e"
    using ret_fails [where body = body and kvs = kvs and code = code and r = r]
      indep ret assms(3-5) by blast
  from rangeLoop_error_source [OF e]
  obtain k v r' where kv: "(k, v) \<in> set kvs" and err: "snd (body r' k v) = Some e"
    by blast
  from kv assms(3) have val: "values k = Some v" by (simp add: rangeOrder_entries)
  from err indep [of r' k v r] have err': "snd (body r k v) = Some e" by simp
  have "k = ''ret''"
  proof (rule ccontr)
    assume "k \<noteq> ''ret''"
    with others val have "snd (body r k v) = None" by blast
    with err' show False by simp
  qed
  with val assms(4) have "v = code" by simp
  with \<open>k = ''ret''\<close> err' ret assms(5) have "e = DeviceReturnedError code" by simp
  with e show ?thesis by simp
qed

text \<open>An entry whose visit fails makes the loop fail with the error of some entry.\<close>

lemma entry_failure:
  assumes indep: "\<And>r r' k v. snd (body r k v) = snd (body r' k v)"
    and "rangeOrder values kvs" "values k = Some v" "snd (body r k v) = Some e"
  shows "\<exists>e' k' v'. snd (rangeLoop body r kvs) = Some e' \<and> values k' = Some v' \<and>
           snd (body r k' v') = Some e'"
proof -
  have "(k, v) \<in> set kvs" using assms(2,3) by (simp add: rangeOrder_entries)
  then obtain e' where e': "snd (rangeLoop body r kvs) = Some e'"
    using rangeLoop_fails [where body = body and k = k and v = v and kvs = kvs and ?r0.0 = r and r = r]
      indep assms(4) by blast
  from rangeLoop_error_source [OF e']
  obtain k' v' r' where kv: "(k', v') \<in> set kvs" and err: "snd (body r' k' v') = Some e'"
    by blast
  from kv assms(2) have "values k' = Some v'" by (simp add: rangeOrder_entries)
  moreover from err indep [of r' k' v' r] have "snd (body r k' v') = Some e'" by simp
  ultimately show ?thesis using e' by blast
qed

lemma ControlInfo_populate_decode_failure:
  assumes "rangeOrder values kvs" "values k = Some v"
    and "snd (ControlInfo_entry pf c k v) = Some e"
  shows "\<exists>e' k' v'. snd (ControlInfo_populate pf c kvs) = Some e' \<and> values k' = Some v' \<and>
           snd (ControlInfo_entry pf c k' v') = Some e'"
  unfolding ControlInfo_populate_def
  by (rule entry_failure [where body = "ControlInfo_entry pf", OF ControlInfo_entry_error assms])

lemma SensorInfo_populate_decode_failure:
  assumes "rangeOrder values kvs" "values k = Some v"
    and "snd (SensorInfo_entry pf s k v) = Some e"
  shows "\<exists>e' k' v'. snd (SensorInfo_populate pf s kvs) = Some e' \<and> values k' = Some v' \<and>
           snd (SensorInfo_entry pf s k' v') = Some e'"
  unfolding SensorInfo_populate_def
  by (rule entry_failure [where body = "SensorInfo_entry pf", OF SensorInfo_entry_error assms])

lemma SetControlInfo_ret:
  assumes "ControlInfo d = Some ci"
    and "httpGet http d (uriSetControlInfo @ ''?'' @ Values_Encode (ControlInfo_urlValues ci)) =
           Return (Inr resp)"
    and "parseResponse readAll resp = Return (Inr vals)"
    and "vals ''ret'' = Some code" and "code \<noteq> ''OK''"
  shows "SetControlInfo http readAll d = Return (Some (DeviceReturnedError code))"
  using assms by (simp add: SetControlInfo_def)

text \<open>
  Claim C7, as amended. For a wire record whose "ret" is not "OK", populate fails for
  each of the three record types, in whatever order the entries are visited. The error
  is the device-reported error with the returned code when the visit of no other entry
  of the record fails; otherwise the order of the visits decides which error is
  returned. \<^verbatim>\<open>SetControlInfo\<close>, once the response has been parsed, fails with the
  device-reported error with the returned code.
\<close>

theorem C7_device_reported_error:
  "(rangeOrder values kvs \<and> values ''ret'' = Some code \<and> code \<noteq> ''OK'' \<longrightarrow>
      (\<exists>e. snd (ControlInfo_populate pf c kvs) = Some e) \<and>
      (\<exists>e. snd (SensorInfo_populate pf s kvs) = Some e) \<and>
      (\<exists>e. snd (WeekPower_populate w kvs) = Some e) \<and>
      ((\<forall>k v. values k = Some v \<and> k \<noteq> ''ret'' \<longrightarrow> snd (ControlInfo_entry pf c k v) = None)
        \<longrightarrow> snd (ControlInfo_populate pf c kvs) = Some (DeviceReturnedError code)) \<and>
      ((\<forall>k v. values k = Some v \<and> k \<noteq> ''ret'' \<longrightarrow> snd (SensorInfo_entry pf s k v) = None)
        \<longrightarrow> snd (SensorInfo_populate pf s kvs) = Some (DeviceReturnedError code)) \<and>
      ((\<forall>k v. values k = Some v \<and> k \<noteq> ''ret'' \<longrightarrow> snd (WeekPower_entry w k v) = None)
        \<longrightarrow> snd (WeekPower_populate w kvs) = Some (DeviceReturnedError code))) \<and>
   (ControlInfo d = Some ci \<and>
    httpGet http d (uriSetControlInfo @ ''?'' @ Values_Encode (ControlInfo_urlValues ci)) =
      Return (Inr resp) \<and>
    parseResponse readAll resp = Return (Inr vals) \<and> vals ''ret'' = Some code \<and> code \<noteq> ''OK''
      \<longrightarrow> SetControlInfo http readAll d = Return (Some (DeviceReturnedError code)))"
proof -
  have populate: "(\<exists>e. snd (ControlInfo_populate pf c kvs) = Some e) \<and>
      (\<exists>e. snd (SensorInfo_populate pf s kvs) = Some e) \<and>
      (\<exists>e. snd (WeekPower_populate w kvs) = Some e) \<and>
      ((\<forall>k v. values k = Some v \<and> k \<noteq> ''ret'' \<longrightarrow> snd (ControlInfo_entry pf c k v) = None)
        \<longrightarrow> snd (ControlInfo_populate pf c kvs) = Some (DeviceReturnedError code)) \<and>
      ((\<forall>k v. values k = Some v \<and> k \<noteq> ''ret'' \<longrightarrow> snd (SensorInfo_entry pf s k v) = None)
        \<longrightarrow> snd (SensorInfo_populate pf s kvs) = Some (DeviceReturnedError code)) \<and>
      ((\<forall>k v. values k = Some v \<and> k \<noteq> ''ret'' \<longrightarrow> snd (WeekPower_entry w k v) = None)
        \<longrightarrow> snd (WeekPower_populate w kvs) = Some (DeviceReturnedError code))"
    if ro: "rangeOrder values kvs" and rv: "values ''ret'' = Some code" and ne: "code \<noteq> ''OK''"
  proof -
    have c1: "\<exists>e. snd (ControlInfo_populate pf c kvs) = Some e"
      unfolding ControlInfo_populate_def
      by (rule ret_fails [where body = "ControlInfo_entry pf", OF ControlInfo_entry_error ControlInfo_entry_ret ro rv ne])
    have s1: "\<exists>e. snd (SensorInfo_populate pf s kvs) = Some e"
      unfolding SensorInfo_populate_def
      by (rule ret_fails [where body = "SensorInfo_entry pf", OF SensorInfo_entry_error SensorInfo_entry_ret ro rv ne])
    have w1: "\<exists>e. snd (WeekPower_populate w kvs) = Some e"
      unfolding WeekPower_populate_def
      by (rule ret_fails [where body = "WeekPower_entry", OF WeekPower_entry_error WeekPower_entry_ret ro rv ne])
    have c2: "snd (ControlInfo_populate pf c kvs) = Some (DeviceReturnedError code)"
      if "\<forall>k v. values k = Some v \<and> k \<noteq> ''ret'' \<longrightarrow> snd (ControlInfo_entry pf c k v) = None"
      unfolding ControlInfo_populate_def
      by (rule ret_error [where body = "ControlInfo_entry pf", OF ControlInfo_entry_error ControlInfo_entry_ret ro rv ne that])
    have s2: "snd (SensorInfo_populate pf s kvs) = Some (DeviceReturnedError code)"
      if "\<forall>k v. values k = Some v \<and> k \<noteq> ''ret'' \<longrightarrow> snd (SensorInfo_entry pf s k v) = None"
      unfolding SensorInfo_populate_def
      by (rule ret_error [where body = "SensorInfo_entry pf", OF SensorInfo_entry_error SensorInfo_entry_ret ro rv ne that])
    have w2: "snd (WeekPower_populate w kvs) = Some (DeviceReturnedError code)"
      if "\<forall>k v. values k = Some v \<and> k \<noteq> ''ret'' \<longrightarrow> snd (WeekPower_entry w k v) = None"
      unfolding WeekPower_populate_def
      by (rule ret_error [where body = "WeekPower_entry", OF WeekPower_entry_error WeekPower_entry_ret ro rv ne that])
    from c1 s1 w1 c2 s2 w2 show ?thesis by blast
  qed
  with SetControlInfo_ret [of d ci http resp readAll vals code] show ?thesis by blast
qed

text \<open>
  The theorem at the wire record {pow: "1", ret: "PARAM NG"} and, for
  \<^verbatim>\<open>SetControlInfo\<close>, at a device that answers "ret=PARAM NG".
\<close>

theorem C7_device_error_witness:
  "rangeOrder (map_of [(''pow'', ''1''), (''ret'', ''PARAM NG'')])
     [(''pow'', ''1''), (''ret'', ''PARAM NG'')] \<and>
   map_of [(''pow'', ''1''), (''ret'', ''PARAM NG'')] ''ret'' = Some ''PARAM NG'' \<and>
   ''PARAM NG'' \<noteq> ''OK'' \<and>
   snd (ControlInfo_populate (\<lambda>v. Inl ErrSyntax) ControlInfo_zero
          [(''pow'', ''1''), (''ret'', ''PARAM NG'')]) = Some (DeviceReturnedError ''PARAM NG'') \<and>
   snd (SensorInfo_populate (\<lambda>v. Inl ErrSyntax) SensorInfo_zero
          [(''pow'', ''1''), (''ret'', ''PARAM NG'')]) = Some (DeviceReturnedError ''PARAM NG'') \<and>
   snd (WeekPower_populate WeekPower_zero
          [(''pow'', ''1''), (''ret'', ''PARAM NG'')]) = Some (DeviceReturnedError ''PARAM NG'') \<and>
   SetControlInfo
     \<lparr>NewRequest = \<lambda>url. True,
      Do = \<lambda>r. Inr \<lparr>StatusCode = 200, Body = Inr ''ret=PARAM NG''\<rparr>\<rparr>
     (\<lambda>body. Inr [[body]])
     \<lparr>Address = ''192.168.1.20'', Token = [], Name = [], ControlInfo = Some ControlInfo_zero,
      SensorInfo = None, WeekPower = None\<rparr> = Return (Some (DeviceReturnedError ''PARAM NG''))"
proof -
  let ?kvs = "[(''pow'', ''1''), (''ret'', ''PARAM NG'')]"
  let ?resp = "\<lparr>StatusCode = 200, Body = Inr ''ret=PARAM NG''\<rparr>"
  let ?d = "\<lparr>Address = ''192.168.1.20'', Token = [], Name = [],
             ControlInfo = Some ControlInfo_zero, SensorInfo = None, WeekPower = None\<rparr>"
  have ro: "rangeOrder (map_of ?kvs) ?kvs" by (simp add: rangeOrder_def)
  have c: "\<forall>k v. map_of ?kvs k = Some v \<and> k \<noteq> ''ret'' \<longrightarrow>
      snd (ControlInfo_entry (\<lambda>v. Inl ErrSyntax) ControlInfo_zero k v) = None"
    by (auto simp: ControlInfo_entry_def Power_decode_def split: if_splits)
  have s: "\<forall>k v. map_of ?kvs k = Some v \<and> k \<noteq> ''ret'' \<longrightarrow>
      snd (SensorInfo_entry (\<lambda>v. Inl ErrSyntax) SensorInfo_zero k v) = None"
    by (auto simp: SensorInfo_entry_def split: if_splits)
  have w: "\<forall>k v. map_of ?kvs k = Some v \<and> k \<noteq> ''ret'' \<longrightarrow>
      snd (WeekPower_entry WeekPower_zero k v) = None"
    by (auto simp: WeekPower_entry_def split: if_splits)
  let ?http = "\<lparr>NewRequest = \<lambda>url. True, Do = \<lambda>r. Inr ?resp\<rparr>"
  have get: "httpGet ?http ?d
      (uriSetControlInfo @ ''?'' @ Values_Encode (ControlInfo_urlValues ControlInfo_zero)) =
      Return (Inr ?resp)"
    by (simp add: httpGet_def)
  have parse: "parseResponse (\<lambda>body. Inr [[body]]) ?resp = Return (Inr [''ret'' \<mapsto> ''PARAM NG''])"
    by (simp add: parseResponse_def SplitN2_def)
  from ro c s w get parse show ?thesis
    using C7_device_reported_error [of "map_of ?kvs" ?kvs "''PARAM NG''" "\<lambda>v. Inl ErrSyntax"
        ControlInfo_zero SensorInfo_zero WeekPower_zero ?d ControlInfo_zero ?http ?resp
        "\<lambda>body. Inr [[body]]" "[''ret'' \<mapsto> ''PARAM NG'']"]
    by simp
qed

text \<open>
  Claim C7 as stated fails: when the wire record {pow: "9", ret: "PARAM NG"} is
  visited with "pow" first, populate returns the decode error of "pow" and not the
  device-reported error.
\<close>

theorem C7_counterexample:
  "rangeOrder (map_of [(''pow'', ''9''), (''ret'', ''PARAM NG'')])
     [(''pow'', ''9''), (''ret'', ''PARAM NG'')] \<and>
   ControlInfo_populate (\<lambda>v. Inl ErrSyntax) ControlInfo_zero
     [(''pow'', ''9''), (''ret'', ''PARAM NG'')] = (ControlInfo_zero, Some (UnknownPwrValue ''9''))"
  by (simp add: rangeOrder_def ControlInfo_populate_def ControlInfo_entry_def Power_decode_def)

subsection \<open>Weekly power\<close>















text \<open>
  Claim C4 fails on the code: with the wire record {ret: "OK", datas: "x/1/2/3/4/5/6"}
  the element "x" does not decode, and yet populate returns without error, with
  SevenDaysAgoWattHours left at 0 and the six other elements assigned. The results of
  the seven calls of \<^verbatim>\<open>decode\<close> on the elements are dropped.
\<close>

theorem C4_datas_errors_dropped:
  "WattHours_decode ''x'' = Inl (ErrorParsingWattHours ''x'' ErrSyntax) \<and>
   WeekPower_populate WeekPower_zero [(''ret'', ''OK''), (''datas'', ''x/1/2/3/4/5/6'')] =
   (\<lparr>TodayRuntime = 0, TodayWattHours = 6, YesterdayWattHours = 5,
     ThreeDaysAgoWattHours = 4, FourDaysAgoWattHours = 3, FiveDaysAgoWattHours = 2,
     SixDaysAgoWattHours = 1, SevenDaysAgoWattHours = 0\<rparr>, None)"
  by (simp add: WeekPower_populate_def WeekPower_entry_def WeekPower_zero_def returnOk_def
      WattHours_decode_dropped_def WattHours_decode_def Atoi_defs)

section \<open>The response parser\<close>

text \<open>A field with a "=" is split at the first one.\<close>

lemma SplitN2_first_equals:
  assumes "CHR ''='' \<in> set f"
  shows "\<exists>name val. SplitN2 f CHR ''='' = [name, val] \<and> f = name @ ''='' @ val \<and>
           CHR ''='' \<notin> set name"
proof -
  let ?name = "takeWhile (\<lambda>c. c \<noteq> CHR ''='') f"
  let ?rest = "dropWhile (\<lambda>c. c \<noteq> CHR ''='') f"
  have ne: "?rest \<noteq> []" using assms by simp
  have "hd ?rest = CHR ''=''" using hd_dropWhile [OF ne] by simp
  with ne have "?rest = CHR ''='' # tl ?rest" by (cases ?rest) simp_all
  then have "f = ?name @ ''='' @ tl ?rest"
    using takeWhile_dropWhile_id [of "\<lambda>c. c \<noteq> CHR ''=''" f] by simp
  moreover have "CHR ''='' \<notin> set ?name" by (auto dest: set_takeWhileD)
  ultimately show ?thesis using assms by (auto simp: SplitN2_def)
qed

lemma parseFields_panics:
  "f \<in> set row \<Longrightarrow> CHR ''='' \<notin> set f \<Longrightarrow> parseFields m row = Panic (IndexOutOfRange 1 1)"
proof (induction row arbitrary: m)
  case Nil
  then show ?case by simp
next
  case (Cons r row)
  show ?case
  proof (cases "CHR ''='' \<in> set r")
    case True
    with Cons.prems have "f \<in> set row" by auto
    then have "\<And>m. parseFields m row = Panic (IndexOutOfRange 1 1)"
      using Cons.prems(2) Cons.IH by blast
    with True show ?thesis by (simp add: SplitN2_def)
  next
    case False
    then show ?thesis by (simp add: SplitN2_def)
  qed
qed

lemma parseFields_returns:
  "\<forall>f \<in> set row. CHR ''='' \<in> set f \<Longrightarrow> \<exists>m'. parseFields m row = Return m'"
  by (induction row arbitrary: m) (simp_all add: SplitN2_def)

lemma parseResponse_panics:
  assumes "Body resp = Inr body" "readAll body = Inr [row]" "f \<in> set row" "CHR ''='' \<notin> set f"
  shows "parseResponse readAll resp = Panic (IndexOutOfRange 1 1)"
  using assms parseFields_panics [of f row Map.empty] by (simp add: parseResponse_def)

text \<open>
  Claim C3 fails on the code: for a body whose one row is the fields "ret=OK" and
  "pow", the second field has no "=", and \<^verbatim>\<open>parseResponse\<close> panics with an index
  out of range where the claim has it return an error.
\<close>

theorem C3_field_without_equals_panics:
  "parseResponse (\<lambda>body. Inr [[''ret=OK'', ''pow'']])
     \<lparr>StatusCode = 200, Body = Inr ''ret=OK,pow''\<rparr> = Panic (IndexOutOfRange 1 1)"
  by (simp add: parseResponse_def SplitN2_def)

section \<open>The get operations\<close>

lemma GetControlInfo_cases:
  "(httpGet http d uriGetControlInfo = Return (Inl err) \<longrightarrow>
      GetControlInfo http readAll pf choice d = (d, Return (Some err))) \<and>
   (httpGet http d uriGetControlInfo = Return (Inr resp) \<and> parseResponse readAll resp = Return (Inl err) \<longrightarrow>
      GetControlInfo http readAll pf choice d =
        (d\<lparr>ControlInfo := Some ControlInfo_zero\<rparr>,
         Return (Some (Prefixed ''GetControlInfo'' err)))) \<and>
   (httpGet http d uriGetControlInfo = Return (Inr resp) \<and> parseResponse readAll resp = Return (Inr vals) \<longrightarrow>
      GetControlInfo http readAll pf choice d =
        (d\<lparr>ControlInfo := Some (fst (ControlInfo_populate pf ControlInfo_zero (choice vals)))\<rparr>,
         Return (snd (ControlInfo_populate pf ControlInfo_zero (choice vals)))))"
  by (simp add: GetControlInfo_def split: prod.splits)

lemma GetSensorInfo_cases:
  "(httpGet http d uriGetSensorInfo = Return (Inl err) \<longrightarrow>
      GetSensorInfo http readAll pf choice d = (d, Return (Some err))) \<and>
   (httpGet http d uriGetSensorInfo = Return (Inr resp) \<and> parseResponse readAll resp = Return (Inl err) \<longrightarrow>
      GetSensorInfo http readAll pf choice d =
        (d\<lparr>SensorInfo := Some SensorInfo_zero\<rparr>,
         Return (Some (Prefixed ''GetSensorInfo'' err)))) \<and>
   (httpGet http d uriGetSensorInfo = Return (Inr resp) \<and> parseResponse readAll resp = Return (Inr vals) \<longrightarrow>
      GetSensorInfo http readAll pf choice d =
        (d\<lparr>SensorInfo := Some (fst (SensorInfo_populate pf SensorInfo_zero (choice vals)))\<rparr>,
         Return (snd (SensorInfo_populate pf SensorInfo_zero (choice vals)))))"
  by (simp add: GetSensorInfo_def split: prod.splits)

lemma GetWeekPower_cases:
  "(httpGet http d uriGetWeekPower = Return (Inl err) \<longrightarrow>
      GetWeekPower http readAll choice d = (d, Return (Some err))) \<and>
   (httpGet http d uriGetWeekPower = Return (Inr resp) \<and> parseResponse readAll resp = Return (Inl err) \<longrightarrow>
      GetWeekPower http readAll choice d =
        (d\<lparr>WeekPower := Some WeekPower_zero\<rparr>,
         Return (Some (Prefixed ''GetWeekPower'' err)))) \<and>
   (httpGet http d uriGetWeekPower = Return (Inr resp) \<and> parseResponse readAll resp = Return (Inr vals) \<longrightarrow>
      GetWeekPower http readAll choice d =
        (d\<lparr>WeekPower := Some (fst (WeekPower_populate WeekPower_zero (choice vals)))\<rparr>,
         Return (snd (WeekPower_populate WeekPower_zero (choice vals)))))"
  by (simp add: GetWeekPower_def split: prod.splits)

text \<open>
  Claim C1, as amended. A get operation whose HTTP request fails (an error of the
  client, or a status other than 200) leaves the session as it was. Once the request
  has succeeded, the session's record is replaced by a fresh zero-valued record before
  the response is parsed: when the parser returns an error, the zero-valued record
  stays; when the parser returns a wire record, the record as populate left it stays,
  whether populate returned an error or not.
\<close>

theorem C1_get_operations:
  "((httpGet http d uriGetControlInfo = Return (Inl err) \<longrightarrow>
       GetControlInfo http readAll pf choice d = (d, Return (Some err))) \<and>
    (httpGet http d uriGetControlInfo = Return (Inr resp) \<and> parseResponse readAll resp = Return (Inl err) \<longrightarrow>
       GetControlInfo http readAll pf choice d =
         (d\<lparr>ControlInfo := Some ControlInfo_zero\<rparr>,
          Return (Some (Prefixed ''GetControlInfo'' err)))) \<and>
    (httpGet http d uriGetControlInfo = Return (Inr resp) \<and> parseResponse readAll resp = Return (Inr vals) \<longrightarrow>
       GetControlInfo http readAll pf choice d =
         (d\<lparr>ControlInfo := Some (fst (ControlInfo_populate pf ControlInfo_zero (choice vals)))\<rparr>,
          Return (snd (ControlInfo_populate pf ControlInfo_zero (choice vals)))))) \<and>
   ((httpGet http d uriGetSensorInfo = Return (Inl err) \<longrightarrow>
       GetSensorInfo http readAll pf choice d = (d, Return (Some err))) \<and>
    (httpGet http d uriGetSensorInfo = Return (Inr resp) \<and> parseResponse readAll resp = Return (Inl err) \<longrightarrow>
       GetSensorInfo http readAll pf choice d =
         (d\<lparr>SensorInfo := Some SensorInfo_zero\<rparr>,
          Return (Some (Prefixed ''GetSensorInfo'' err)))) \<and>
    (httpGet http d uriGetSensorInfo = Return (Inr resp) \<and> parseResponse readAll resp = Return (Inr vals) \<longrightarrow>
       GetSensorInfo http readAll pf choice d =
         (d\<lparr>SensorInfo := Some (fst (SensorInfo_populate pf SensorInfo_zero (choice vals)))\<rparr>,
          Return (snd (SensorInfo_populate pf SensorInfo_zero (choice vals)))))) \<and>
   ((httpGet http d uriGetWeekPower = Return (Inl err) \<longrightarrow>
       GetWeekPower http readAll choice d = (d, Return (Some err))) \<and>
    (httpGet http d uriGetWeekPower = Return (Inr resp) \<and> parseResponse readAll resp = Return (Inl err) \<longrightarrow>
       GetWeekPower http readAll choice d =
         (d\<lparr>WeekPower := Some WeekPower_zero\<rparr>,
          Return (Some (Prefixed ''GetWeekPower'' err)))) \<and>
    (httpGet http d uriGetWeekPower = Return (Inr resp) \<and> parseResponse readAll resp = Return (Inr vals) \<longrightarrow>
       GetWeekPower http readAll choice d =
         (d\<lparr>WeekPower := Some (fst (WeekPower_populate WeekPower_zero (choice vals)))\<rparr>,
          Return (snd (WeekPower_populate WeekPower_zero (choice vals))))))"
  using GetControlInfo_cases [of http d err readAll pf choice resp vals]
    GetSensorInfo_cases [of http d err readAll pf choice resp vals]
    GetWeekPower_cases [of http d err readAll choice resp vals]
  by (intro conjI) blast+

text \<open>
  The theorem for \<^verbatim>\<open>GetControlInfo\<close> at a device that answers with status 500,
  at one that answers with an empty body, and at one that answers "ret=OK".
\<close>

theorem C1_get_operations_witness:
  "httpGet
     \<lparr>NewRequest = \<lambda>url. True,
      Do = \<lambda>r. Inr \<lparr>StatusCode = 500, Body = Inr []\<rparr>\<rparr>
     \<lparr>Address = ''192.168.1.20'', Token = [], Name = [], ControlInfo = None,
      SensorInfo = None, WeekPower = None\<rparr> uriGetControlInfo =
     Return (Inl (RequestFailed uriGetControlInfo 500)) \<and>
   GetControlInfo
     \<lparr>NewRequest = \<lambda>url. True,
      Do = \<lambda>r. Inr \<lparr>StatusCode = 500, Body = Inr []\<rparr>\<rparr>
     (\<lambda>body. Inr []) (\<lambda>v. Inl ErrSyntax) (\<lambda>m. [])
     \<lparr>Address = ''192.168.1.20'', Token = [], Name = [], ControlInfo = None,
      SensorInfo = None, WeekPower = None\<rparr> =
     (\<lparr>Address = ''192.168.1.20'', Token = [], Name = [], ControlInfo = None,
      SensorInfo = None, WeekPower = None\<rparr>,
      Return (Some (RequestFailed uriGetControlInfo 500))) \<and>
   httpGet
     \<lparr>NewRequest = \<lambda>url. True,
      Do = \<lambda>r. Inr \<lparr>StatusCode = 200, Body = Inr []\<rparr>\<rparr>
     \<lparr>Address = ''192.168.1.20'', Token = [], Name = [], ControlInfo = None,
      SensorInfo = None, WeekPower = None\<rparr> uriGetControlInfo =
     Return (Inr \<lparr>StatusCode = 200, Body = Inr []\<rparr>) \<and>
   parseResponse (\<lambda>body. Inr []) \<lparr>StatusCode = 200, Body = Inr []\<rparr> =
     Return (Inl (RowsOfRecords 0)) \<and>
   GetControlInfo
     \<lparr>NewRequest = \<lambda>url. True,
      Do = \<lambda>r. Inr \<lparr>StatusCode = 200, Body = Inr []\<rparr>\<rparr>
     (\<lambda>body. Inr []) (\<lambda>v. Inl ErrSyntax) (\<lambda>m. [])
     \<lparr>Address = ''192.168.1.20'', Token = [], Name = [], ControlInfo = None,
      SensorInfo = None, WeekPower = None\<rparr> =
     (\<lparr>Address = ''192.168.1.20'', Token = [], Name = [],
       ControlInfo = Some ControlInfo_zero, SensorInfo = None, WeekPower = None\<rparr>,
      Return (Some (Prefixed ''GetControlInfo'' (RowsOfRecords 0)))) \<and>
   httpGet
     \<lparr>NewRequest = \<lambda>url. True,
      Do = \<lambda>r. Inr \<lparr>StatusCode = 200, Body = Inr ''ret=OK''\<rparr>\<rparr>
     \<lparr>Address = ''192.168.1.20'', Token = [], Name = [], ControlInfo = None,
      SensorInfo = None, WeekPower = None\<rparr> uriGetControlInfo =
     Return (Inr \<lparr>StatusCode = 200, Body = Inr ''ret=OK''\<rparr>) \<and>
   parseResponse (\<lambda>body. Inr [[''ret=OK'']]) \<lparr>StatusCode = 200, Body = Inr ''ret=OK''\<rparr> =
     Return (Inr (map_of [(''ret'', ''OK'')])) \<and>
   GetControlInfo
     \<lparr>NewRequest = \<lambda>url. True,
      Do = \<lambda>r. Inr \<lparr>StatusCode = 200, Body = Inr ''ret=OK''\<rparr>\<rparr>
     (\<lambda>body. Inr [[''ret=OK'']]) (\<lambda>v. Inl ErrSyntax) (\<lambda>m. [(''ret'', ''OK'')])
     \<lparr>Address = ''192.168.1.20'', Token = [], Name = [], ControlInfo = None,
      SensorInfo = None, WeekPower = None\<rparr> =
     (\<lparr>Address = ''192.168.1.20'', Token = [], Name = [],
       ControlInfo = Some ControlInfo_zero, SensorInfo = None, WeekPower = None\<rparr>,
      Return None)"
proof -
  let ?d = "\<lparr>Address = ''192.168.1.20'', Token = [], Name = [], ControlInfo = None,
      SensorInfo = None, WeekPower = None\<rparr>"
  let ?r500 = "\<lparr>StatusCode = 500, Body = Inr []\<rparr>"
  let ?r200 = "\<lparr>StatusCode = 200, Body = Inr []\<rparr>"
  let ?rOK = "\<lparr>StatusCode = 200, Body = Inr ''ret=OK''\<rparr>"
  let ?h500 = "\<lparr>NewRequest = \<lambda>url. True, Do = \<lambda>r. Inr ?r500\<rparr>"
  let ?h200 = "\<lparr>NewRequest = \<lambda>url. True, Do = \<lambda>r. Inr ?r200\<rparr>"
  let ?hOK = "\<lparr>NewRequest = \<lambda>url. True, Do = \<lambda>r. Inr ?rOK\<rparr>"
  have h500: "httpGet ?h500 ?d uriGetControlInfo =
      Return (Inl (RequestFailed uriGetControlInfo 500))"
    by (simp add: httpGet_def)
  have h200: "httpGet ?h200 ?d uriGetControlInfo = Return (Inr ?r200)"
    by (simp add: httpGet_def)
  have hOK: "httpGet ?hOK ?d uriGetControlInfo = Return (Inr ?rOK)"
    by (simp add: httpGet_def)
  have p0: "parseResponse (\<lambda>body. Inr []) ?r200 = Return (Inl (RowsOfRecords 0))"
    by (simp add: parseResponse_def)
  have p1: "parseResponse (\<lambda>body. Inr [[''ret=OK'']]) ?rOK =
      Return (Inr (map_of [(''ret'', ''OK'')]))"
    by (simp add: parseResponse_def SplitN2_def)
  have pop: "ControlInfo_populate (\<lambda>v. Inl ErrSyntax) ControlInfo_zero [(''ret'', ''OK'')] =
      (ControlInfo_zero, None)"
    by (simp add: ControlInfo_populate_def ControlInfo_entry_def returnOk_def)
  from h500 h200 hOK p0 p1 pop show ?thesis
    using C1_get_operations [of ?h500 ?d "RequestFailed uriGetControlInfo 500"
        "\<lambda>body. Inr []" "\<lambda>v. Inl ErrSyntax" "\<lambda>m. []" ?r500 Map.empty]
      C1_get_operations [of ?h200 ?d "RowsOfRecords 0"
        "\<lambda>body. Inr []" "\<lambda>v. Inl ErrSyntax" "\<lambda>m. []" ?r200 Map.empty]
      C1_get_operations [of ?hOK ?d "RowsOfRecords 0"
        "\<lambda>body. Inr [[''ret=OK'']]" "\<lambda>v. Inl ErrSyntax" "\<lambda>m. [(''ret'', ''OK'')]" ?rOK
        "map_of [(''ret'', ''OK'')]"]
    by simp
qed

text \<open>
  Claim C1 as stated fails: after an empty response the control record of before the
  call is replaced by a zero-valued record, and after the response "pow=1,mode=9",
  visited in this order, the record with only Power set is retained.
\<close>

theorem C1_counterexample:
  "GetControlInfo
     \<lparr>NewRequest = \<lambda>url. True, Do = \<lambda>r. Inr \<lparr>StatusCode = 200, Body = Inr []\<rparr>\<rparr>
     (\<lambda>body. Inr []) (\<lambda>v. Inl ErrSyntax) (\<lambda>m. [])
     \<lparr>Address = ''192.168.1.20'', Token = [], Name = [],
      ControlInfo = Some \<lparr>Power = PowerOn, Mode = ModeCool, Fan = FanAuto, FanDir = FanDirBoth,
        Temperature = Finite False 23 0, Humidity = - 1\<rparr>,
      SensorInfo = None, WeekPower = None\<rparr> =
   (\<lparr>Address = ''192.168.1.20'', Token = [], Name = [],
     ControlInfo = Some \<lparr>Power = 0, Mode = 0, Fan = [], FanDir = 0,
       Temperature = Finite False 0 0, Humidity = 0\<rparr>,
     SensorInfo = None, WeekPower = None\<rparr>,
    Return (Some (Prefixed ''GetControlInfo'' (RowsOfRecords 0)))) \<and>
   GetControlInfo
     \<lparr>NewRequest = \<lambda>url. True,
      Do = \<lambda>r. Inr \<lparr>StatusCode = 200, Body = Inr ''pow=1,mode=9''\<rparr>\<rparr>
     (\<lambda>body. Inr [[''pow=1'', ''mode=9'']])
     (\<lambda>v. Inl ErrSyntax) (\<lambda>m. [(''pow'', ''1''), (''mode'', ''9'')])
     \<lparr>Address = ''192.168.1.20'', Token = [], Name = [], ControlInfo = None,
      SensorInfo = None, WeekPower = None\<rparr> =
   (\<lparr>Address = ''192.168.1.20'', Token = [], Name = [],
     ControlInfo = Some \<lparr>Power = 1, Mode = 0, Fan = [], FanDir = 0,
       Temperature = Finite False 0 0, Humidity = 0\<rparr>,
     SensorInfo = None, WeekPower = None\<rparr>,
    Return (Some (UnknownModeValue ''9'')))"
  by (simp add: GetControlInfo_def httpGet_def parseResponse_def SplitN2_def ControlInfo_zero_def
      ControlInfo_populate_def ControlInfo_entry_def Power_decode_def Mode_decode_def PowerOn_def)

end
